theory Spec2Isabelle
  imports Main "HOL-Library.Word" "HOL-Library.AList"
begin

section \<open>Key Transparency client core: data model\<close>

text \<open>
  Shallow embedding of the Go packages \<^verbatim>\<open>core/client/kt\<close> (response verifier),
  \<^verbatim>\<open>core/client/grpcc\<close> (client), \<^verbatim>\<open>core/mutator/entry\<close> (mutation builder)
  and \<^verbatim>\<open>core/monitor\<close> (monitor loop).

  Conventions.
  \<^item> A Go byte slice is a list of 8-bit words; \<^verbatim>\<open>nil\<close> and the empty slice are both \<open>[]\<close>
    (\<^verbatim>\<open>bytes.Equal\<close> and \<^verbatim>\<open>len\<close> do not tell them apart).
  \<^item> \<^verbatim>\<open>int64\<close> is \<open>64 word\<close>; comparisons on it are the signed ones.
  \<^item> A pointer to a message that the code may receive as \<^verbatim>\<open>nil\<close> is an \<open>option\<close>; the
    generated getters, which are nil-safe, are the \<open>Get...\<close> functions below.
  \<^item> Pointers whose identity matters (the caller's trusted log root, the map roots used as
    keys of the history map) are addresses into an explicit store.
  \<^item> An \<^verbatim>\<open>error\<close> is a value of the datatype \<open>error\<close>; a run-time panic is the result
    \<open>Panicked\<close>.
  \<^item> Functions of other packages and of external libraries (Trillian, the VRF, the
    commitment scheme, the RPC stubs) are fields of parameter records.
\<close>

type_synonym byte = "8 word"
type_synonym bytes = "byte list"
type_synonym int64 = "64 word"
type_synonym int32 = "32 word"
type_synonym addr = nat

datatype error =
    ErrNilProof
  | ErrRetry
  | ErrIncomplete
  | ErrMissingKey
  | Errorf string error
  | ErrorfStart int64
  | ErrOther string

datatype 'a result = Panicked | Returned 'a

record SignedLogRoot =
  LogTimestampNanos :: int64
  LogRootHash :: bytes
  TreeSize :: int64
  LogSignature :: bytes
  LogId :: int64

record SignedMapRoot =
  TimestampNanos :: int64
  RootHash :: bytes
  MapId :: int64
  MapRevision :: int64
  Signature :: "bytes option"

record Committed =
  Key :: bytes
  Data :: bytes

record MapLeaf =
  LeafValue :: bytes

record MapLeafInclusion =
  Leaf :: "MapLeaf option"
  Inclusion :: "bytes list"

record Entry =
  Index :: bytes
  Commitment :: bytes
  AuthorizedKeys :: "bytes list"
  Previous :: bytes
  Signatures :: "(string \<times> bytes) list"

text \<open>
  \<^verbatim>\<open>GetEntryResponse\<close>: \<open>Smr\<close> and \<open>LogRoot\<close> are pointers into the store.
\<close>

record GetEntryResponse =
  VrfProof :: bytes
  CommittedField :: "Committed option"
  LeafProof :: "MapLeafInclusion option"
  Smr :: "addr option"
  LogRoot :: "addr option"
  LogConsistency :: "bytes list"
  LogInclusion :: "bytes list"

record store =
  logRoots :: "addr \<rightharpoonup> SignedLogRoot"
  mapRoots :: "addr \<rightharpoonup> SignedMapRoot"

definition logRootAt :: "store \<Rightarrow> addr option \<Rightarrow> SignedLogRoot option" where
  "logRootAt s p = (case p of None \<Rightarrow> None | Some a \<Rightarrow> logRoots s a)"

definition mapRootAt :: "store \<Rightarrow> addr option \<Rightarrow> SignedMapRoot option" where
  "mapRootAt s p = (case p of None \<Rightarrow> None | Some a \<Rightarrow> mapRoots s a)"

subsection \<open>Generated getters (nil-safe)\<close>

definition GetLeafProof :: "GetEntryResponse option \<Rightarrow> MapLeafInclusion option" where
  "GetLeafProof r = (case r of None \<Rightarrow> None | Some x \<Rightarrow> LeafProof x)"

definition GetLeaf :: "MapLeafInclusion option \<Rightarrow> MapLeaf option" where
  "GetLeaf p = (case p of None \<Rightarrow> None | Some x \<Rightarrow> Leaf x)"

definition GetInclusion :: "MapLeafInclusion option \<Rightarrow> bytes list" where
  "GetInclusion p = (case p of None \<Rightarrow> [] | Some x \<Rightarrow> Inclusion x)"

definition GetLeafValue :: "MapLeaf option \<Rightarrow> bytes" where
  "GetLeafValue l = (case l of None \<Rightarrow> [] | Some x \<Rightarrow> LeafValue x)"

definition GetCommitted :: "GetEntryResponse option \<Rightarrow> Committed option" where
  "GetCommitted r = (case r of None \<Rightarrow> None | Some x \<Rightarrow> CommittedField x)"

definition GetData :: "Committed option \<Rightarrow> bytes" where
  "GetData c = (case c of None \<Rightarrow> [] | Some x \<Rightarrow> Data x)"

definition GetKey :: "Committed option \<Rightarrow> bytes" where
  "GetKey c = (case c of None \<Rightarrow> [] | Some x \<Rightarrow> Key x)"

definition GetVrfProof :: "GetEntryResponse option \<Rightarrow> bytes" where
  "GetVrfProof r = (case r of None \<Rightarrow> [] | Some x \<Rightarrow> VrfProof x)"

definition GetSmr :: "GetEntryResponse option \<Rightarrow> addr option" where
  "GetSmr r = (case r of None \<Rightarrow> None | Some x \<Rightarrow> Smr x)"

definition GetLogRoot :: "GetEntryResponse option \<Rightarrow> addr option" where
  "GetLogRoot r = (case r of None \<Rightarrow> None | Some x \<Rightarrow> LogRoot x)"

definition GetLogConsistency :: "GetEntryResponse option \<Rightarrow> bytes list" where
  "GetLogConsistency r = (case r of None \<Rightarrow> [] | Some x \<Rightarrow> LogConsistency x)"

definition GetLogInclusion :: "GetEntryResponse option \<Rightarrow> bytes list" where
  "GetLogInclusion r = (case r of None \<Rightarrow> [] | Some x \<Rightarrow> LogInclusion x)"

definition GetRootHash :: "SignedMapRoot option \<Rightarrow> bytes" where
  "GetRootHash m = (case m of None \<Rightarrow> [] | Some x \<Rightarrow> RootHash x)"

definition GetMapId :: "SignedMapRoot option \<Rightarrow> int64" where
  "GetMapId m = (case m of None \<Rightarrow> 0 | Some x \<Rightarrow> MapId x)"

definition GetMapRevision :: "SignedMapRoot option \<Rightarrow> int64" where
  "GetMapRevision m = (case m of None \<Rightarrow> 0 | Some x \<Rightarrow> MapRevision x)"

definition GetSignature :: "SignedMapRoot option \<Rightarrow> bytes option" where
  "GetSignature m = (case m of None \<Rightarrow> None | Some x \<Rightarrow> Signature x)"

definition GetCommitment :: "Entry option \<Rightarrow> bytes" where
  "GetCommitment e = (case e of None \<Rightarrow> [] | Some x \<Rightarrow> Commitment x)"

definition GetAuthorizedKeys :: "Entry option \<Rightarrow> bytes list" where
  "GetAuthorizedKeys e = (case e of None \<Rightarrow> [] | Some x \<Rightarrow> AuthorizedKeys x)"

section \<open>Response verifier (package kt)\<close>

text \<open>
  \<^verbatim>\<open>client.LogVerifier\<close> is an interface of the Trillian library: a record of its two
  methods. Both only read the roots they are handed (Trillian's \<^verbatim>\<open>VerifyRoot\<close> checks the
  new root's signature and the consistency proof and assigns nothing) and return an
  error or \<^verbatim>\<open>nil\<close>; a nil pointer argument arrives as \<open>None\<close>.
\<close>

record LogVerifier =
  VerifyRoot :: "SignedLogRoot option \<Rightarrow> SignedLogRoot option \<Rightarrow> bytes list \<Rightarrow> error option"
  VerifyInclusionAtIndex ::
    "SignedLogRoot option \<Rightarrow> bytes \<Rightarrow> int64 \<Rightarrow> bytes list \<Rightarrow> error option"

record Verifier =
  vrf :: bytes
  hasher :: nat
  mapPubKey :: bytes
  logVerifier :: LogVerifier

text \<open>
  The functions the verifier calls in other packages: \<^verbatim>\<open>entry.FromLeafValue\<close>
  (returns a nil entry for an empty leaf), \<^verbatim>\<open>commitments.Verify\<close>, the verifier's own
  \<^verbatim>\<open>Index\<close> method (VRF proof to index, over the verifier's VRF key),
  \<^verbatim>\<open>merkle.VerifyMapInclusionProof\<close>, \<^verbatim>\<open>tcrypto.VerifyObject\<close> and \<^verbatim>\<open>json.Marshal\<close>.
\<close>

record kt_lib =
  FromLeafValue :: "bytes \<Rightarrow> error + Entry option"
  commitments_Verify :: "string \<Rightarrow> string \<Rightarrow> bytes \<Rightarrow> bytes \<Rightarrow> bytes \<Rightarrow> error option"
  VrfIndex :: "bytes \<Rightarrow> bytes \<Rightarrow> string \<Rightarrow> string \<Rightarrow> string \<Rightarrow> error + bytes"
  VerifyMapInclusionProof ::
    "int64 \<Rightarrow> bytes \<Rightarrow> bytes \<Rightarrow> bytes \<Rightarrow> bytes list \<Rightarrow> nat \<Rightarrow> error option"
  VerifyObject :: "bytes \<Rightarrow> SignedMapRoot \<Rightarrow> bytes option \<Rightarrow> error option"
  json_Marshal :: "SignedMapRoot option \<Rightarrow> error + bytes"

text \<open>
  \<^verbatim>\<open>VerifyGetEntryResponse(ctx, domainID, appID, userID, trusted, in)\<close>.
  \<open>trusted\<close> is the pointer parameter: a local variable holding an address. The statement
  \<^verbatim>\<open>trusted = in.GetLogRoot()\<close> rebinds that local variable (here \<open>trusted'\<close>); it does
  not write through it, so no step of the function writes to the store, which is
  returned as it was received. \<^verbatim>\<open>smr := *in.GetSmr()\<close> dereferences the pointer and
  panics when it is nil.
\<close>

definition VerifyGetEntryResponse ::
  "kt_lib \<Rightarrow> Verifier \<Rightarrow> string \<Rightarrow> string \<Rightarrow> string \<Rightarrow> store \<Rightarrow> addr option \<Rightarrow>
   GetEntryResponse option \<Rightarrow> error option result \<times> store" where
  "VerifyGetEntryResponse L v domainID appID userID s trusted resp =
    (case FromLeafValue L (GetLeafValue (GetLeaf (GetLeafProof resp))) of
      Inl err \<Rightarrow> (Returned (Some err), s)
    | Inr e \<Rightarrow>
      (case (if GetCommitted resp \<noteq> None
             then (let commitment = GetCommitment e;
                       data = GetData (GetCommitted resp);
                       nonce = GetKey (GetCommitted resp)
                   in commitments_Verify L userID appID commitment data nonce)
             else None) of
        Some err \<Rightarrow> (Returned (Some (Errorf ''commitments.Verify'' err)), s)
      | None \<Rightarrow>
        (case VrfIndex L (vrf v) (GetVrfProof resp) domainID appID userID of
          Inl err \<Rightarrow> (Returned (Some err), s)
        | Inr index \<Rightarrow>
          (case GetLeafProof resp of
            None \<Rightarrow> (Returned (Some ErrNilProof), s)
          | Some leafProof \<Rightarrow>
            (let leaf = GetLeafValue (GetLeaf (Some leafProof));
                 proof = GetInclusion (Some leafProof);
                 expectedRoot = GetRootHash (mapRootAt s (GetSmr resp));
                 mapID = GetMapId (mapRootAt s (GetSmr resp))
             in case VerifyMapInclusionProof L mapID index leaf expectedRoot proof (hasher v) of
               Some err \<Rightarrow> (Returned (Some (Errorf ''VerifyMapInclusionProof'' err)), s)
             | None \<Rightarrow>
               (case mapRootAt s (GetSmr resp) of
                 None \<Rightarrow> (Panicked, s)
               | Some smr0 \<Rightarrow>
                 (let smr = smr0\<lparr>Signature := None\<rparr>
                  in case VerifyObject L (mapPubKey v) smr
                            (GetSignature (mapRootAt s (GetSmr resp))) of
                    Some err \<Rightarrow> (Returned (Some (Errorf ''sig.Verify(SMR)'' err)), s)
                  | None \<Rightarrow>
                    (case VerifyRoot (logVerifier v) (logRootAt s trusted)
                            (logRootAt s (GetLogRoot resp)) (GetLogConsistency resp) of
                      Some err \<Rightarrow> (Returned (Some (Errorf ''VerifyRoot'' err)), s)
                    | None \<Rightarrow>
                      (let trusted' = GetLogRoot resp
                       in case json_Marshal L (mapRootAt s (GetSmr resp)) of
                         Inl err \<Rightarrow> (Returned (Some (Errorf ''json.Marshal'' err)), s)
                       | Inr b \<Rightarrow>
                         (let logLeafIndex = GetMapRevision (mapRootAt s (GetSmr resp))
                          in case VerifyInclusionAtIndex (logVerifier v) (logRootAt s trusted')
                                    b logLeafIndex (GetLogInclusion resp) of
                            Some err \<Rightarrow>
                              (Returned (Some (Errorf ''VerifyInclusionAtIndex'' err)), s)
                          | None \<Rightarrow> (Returned None, s)))))))))))"

text \<open>
  Modelled from the spec: the canonical byte form of a signed map root, which "excludes
  the signature field" (section 3 of the specification). No function of the verifier
  computes it; it is defined here, over the same encoder, for comparison with the bytes
  the verifier encodes.
\<close>

definition canonical_SMR_bytes :: "kt_lib \<Rightarrow> SignedMapRoot \<Rightarrow> error + bytes" where
  "canonical_SMR_bytes L smr = json_Marshal L (Some (smr\<lparr>Signature := None\<rparr>))"

section \<open>Mutation builder (package entry)\<close>

text \<open>
  \<^verbatim>\<open>signatures.Signer\<close> is an interface: a record of its two methods. \<open>Sign\<close> may fail.
\<close>

record Signer =
  KeyID :: string
  Sign :: "Entry \<Rightarrow> error + bytes"

text \<open>
  \<^verbatim>\<open>Mutation\<close>: \<open>prevEntry\<close> is a pointer that is nil until \<^verbatim>\<open>SetPrevious\<close> has run (and
  stays nil when the previous leaf is empty); \<open>entry\<close> is allocated by \<^verbatim>\<open>NewMutation\<close>
  and never nil.
\<close>

record Mutation =
  DomainID :: string
  AppID :: string
  UserID :: string
  data :: bytes
  nonce :: bytes
  prevEntry :: "Entry option"
  entry :: Entry

record EntryUpdate =
  upd_Mutation :: Entry
  upd_Committed :: Committed

record UpdateEntryRequest =
  DomainId :: string
  UserId :: string
  AppId :: string
  FirstTreeSize :: int64
  EntryUpdateField :: EntryUpdate

text \<open>
  Functions the builder calls that are defined elsewhere: \<^verbatim>\<open>objecthash.CommonJSONify\<close> and
  \<^verbatim>\<open>objecthash.ObjectHash\<close> (with \<open>nilHash\<close> the object hash of \<^verbatim>\<open>nil\<close>), the package's
  \<^verbatim>\<open>verifyKeys\<close> and \<^verbatim>\<open>New().Mutate\<close>, and \<^verbatim>\<open>Mutation.Check\<close>, which the client's retry
  step calls.
\<close>

record entry_lib =
  nilHash :: bytes
  CommonJSONify :: "Entry option \<Rightarrow> error + bytes"
  ObjectHash :: "bytes \<Rightarrow> error + bytes"
  verifyKeys :: "bytes list \<Rightarrow> bytes list \<Rightarrow> Entry \<Rightarrow> (string \<times> bytes) list \<Rightarrow> error option"
  Mutate :: "Entry option \<Rightarrow> Entry \<Rightarrow> error + Entry"
  Check :: "Mutation \<Rightarrow> bytes \<Rightarrow> error + bool"

definition NewMutation :: "entry_lib \<Rightarrow> bytes \<Rightarrow> string \<Rightarrow> string \<Rightarrow> string \<Rightarrow> Mutation" where
  "NewMutation E index domainID appID userID =
    \<lparr>DomainID = domainID, AppID = appID, UserID = userID, data = [], nonce = [],
     prevEntry = None,
     entry = \<lparr>Index = index, Commitment = [], AuthorizedKeys = [], Previous = nilHash E,
              Signatures = []\<rparr>\<rparr>"

text \<open>\<^verbatim>\<open>SetPrevious(oldValue, copyPrevious)\<close>: on an error the mutation is untouched.\<close>

definition SetPrevious ::
  "kt_lib \<Rightarrow> entry_lib \<Rightarrow> Mutation \<Rightarrow> bytes \<Rightarrow> bool \<Rightarrow> error option \<times> Mutation" where
  "SetPrevious L E m oldValue copyPrevious =
    (case FromLeafValue L oldValue of
      Inl err \<Rightarrow> (Some err, m)
    | Inr prev \<Rightarrow>
      (case CommonJSONify E prev of
        Inl err \<Rightarrow> (Some err, m)
      | Inr pej \<Rightarrow>
        (case ObjectHash E pej of
          Inl err \<Rightarrow> (Some err, m)
        | Inr hash \<Rightarrow>
          (let m1 = m\<lparr>prevEntry := prev\<rparr>;
               m2 = m1\<lparr>entry := (entry m1)\<lparr>Previous := hash\<rparr>\<rparr>;
               m3 = (if copyPrevious
                     then m2\<lparr>entry := (entry m2)\<lparr>AuthorizedKeys := GetAuthorizedKeys prev,
                                                  Commitment := GetCommitment prev\<rparr>\<rparr>
                     else m2)
           in (None, m3)))))"

text \<open>\<^verbatim>\<open>ReplaceAuthorizedKeys(pubkeys)\<close>: \<^verbatim>\<open>len(pubkeys) < 1\<close> is the guard.\<close>

definition ReplaceAuthorizedKeys :: "Mutation \<Rightarrow> bytes list \<Rightarrow> error option \<times> Mutation" where
  "ReplaceAuthorizedKeys m pubkeys =
    (if length pubkeys < 1 then (Some ErrMissingKey, m)
     else (None, m\<lparr>entry := (entry m)\<lparr>AuthorizedKeys := pubkeys\<rparr>\<rparr>))"

text \<open>
  \<^verbatim>\<open>sign(signers)\<close>: clears \<^verbatim>\<open>m.entry.Signatures\<close>, lets every signer sign the entry in
  that state, collects the signatures in a map keyed by key id (a later signer with the
  same key id replaces the earlier signature), and stores the map in the entry. The first
  signer that fails ends the function, with the signatures already cleared. The result
  is the pointer \<^verbatim>\<open>m.entry\<close>: the entry of the returned mutation.
\<close>

fun sign_loop :: "Signer list \<Rightarrow> Entry \<Rightarrow> (string \<times> bytes) list \<Rightarrow> error + (string \<times> bytes) list" where
  "sign_loop [] e sigs = Inr sigs"
| "sign_loop (signer # rest) e sigs =
    (case Sign signer e of
      Inl err \<Rightarrow> Inl err
    | Inr sig \<Rightarrow> sign_loop rest e (AList.update (KeyID signer) sig sigs))"

definition sign :: "Mutation \<Rightarrow> Signer list \<Rightarrow> (error + Entry) \<times> Mutation" where
  "sign m signers =
    (let m1 = m\<lparr>entry := (entry m)\<lparr>Signatures := []\<rparr>\<rparr>
     in case sign_loop signers (entry m1) [] of
       Inl err \<Rightarrow> (Inl err, m1)
     | Inr sigs \<Rightarrow>
       (let m2 = m1\<lparr>entry := (entry m1)\<lparr>Signatures := sigs\<rparr>\<rparr>
        in (Inr (entry m2), m2)))"

text \<open>\<^verbatim>\<open>SerializeAndSign(signers, trustedTreeSize)\<close>.\<close>

definition SerializeAndSign ::
  "entry_lib \<Rightarrow> Mutation \<Rightarrow> Signer list \<Rightarrow> int64 \<Rightarrow> (error + UpdateEntryRequest) \<times> Mutation" where
  "SerializeAndSign E m signers trustedTreeSize =
    (case sign m signers of
      (Inl err, m') \<Rightarrow> (Inl err, m')
    | (Inr mutation, m') \<Rightarrow>
      (let skv = mutation\<lparr>Signatures := []\<rparr>
       in case verifyKeys E (GetAuthorizedKeys (prevEntry m')) (AuthorizedKeys (entry m')) skv
                 (Signatures mutation) of
         Some err \<Rightarrow> (Inl (Errorf ''verifyKeys'' err), m')
       | None \<Rightarrow>
         (case Mutate E (prevEntry m') mutation of
           Inl err \<Rightarrow> (Inl (Errorf ''presign mutation check'' err), m')
         | Inr u \<Rightarrow>
           (Inr \<lparr>DomainId = DomainID m', UserId = UserID m', AppId = AppID m',
                 FirstTreeSize = trustedTreeSize,
                 EntryUpdateField = \<lparr>upd_Mutation = mutation,
                                     upd_Committed = \<lparr>Key = nonce m', Data = data m'\<rparr>\<rparr>\<rparr>,
            m'))))"

section \<open>Client (package grpcc)\<close>

record GetEntryRequest =
  get_DomainId :: string
  get_UserId :: string
  get_AppId :: string
  get_FirstTreeSize :: int64

record ListEntryHistoryRequest =
  list_DomainId :: string
  list_UserId :: string
  list_AppId :: string
  Start :: int64
  PageSize :: int32

record ListEntryHistoryResponse =
  Values :: "GetEntryResponse list"
  NextStart :: int64

record UpdateEntryResponse =
  Proof :: "GetEntryResponse option"

text \<open>
  \<^verbatim>\<open>pb.KeyTransparencyClient\<close> is the interface of the generated RPC stubs. A call runs
  against the state \<open>'srv\<close> of the outside world and returns an error or a freshly
  unmarshalled response (never nil when the error is nil); the objects the response
  points to are new objects of the store.
\<close>

record 'srv KeyTransparencyClient =
  rpc_GetEntry ::
    "'srv \<Rightarrow> store \<Rightarrow> GetEntryRequest \<Rightarrow> (error + GetEntryResponse) \<times> 'srv \<times> store"
  rpc_ListEntryHistory ::
    "'srv \<Rightarrow> store \<Rightarrow> ListEntryHistoryRequest \<Rightarrow>
     (error + ListEntryHistoryResponse) \<times> 'srv \<times> store"
  rpc_UpdateEntry ::
    "'srv \<Rightarrow> store \<Rightarrow> UpdateEntryRequest \<Rightarrow> (error + UpdateEntryResponse) \<times> 'srv \<times> store"

text \<open>
  \<^verbatim>\<open>Client\<close>. \<open>trusted\<close> is the address of the struct field \<^verbatim>\<open>c.trusted\<close>, so that
  \<^verbatim>\<open>&c.trusted\<close> is \<open>Some (trusted c)\<close>. \<open>RetryCount\<close> is a Go \<^verbatim>\<open>int\<close>; the loop counter
  that is compared with it starts at 0 and stays below it, so it cannot overflow and
  both are mathematical integers here. \<open>RetryDelay\<close> is a duration in nanoseconds.
  \<open>kt_NewMutation\<close> stands for the method \<^verbatim>\<open>kt.Verifier.NewMutation\<close>.
\<close>

record 'srv Client =
  cli :: "'srv KeyTransparencyClient"
  domainID :: string
  kt :: Verifier
  RetryCount :: int
  RetryDelay :: int
  trusted :: addr
  kt_NewMutation ::
    "string \<Rightarrow> string \<Rightarrow> string \<Rightarrow> bytes \<Rightarrow> bytes list \<Rightarrow> bytes \<Rightarrow> bytes \<Rightarrow> error + Mutation"

text \<open>
  What a client operation does to the outside, in the order in which it does it: the
  requests it sends and the durations it hands to \<^verbatim>\<open>time.Sleep\<close>.
\<close>

datatype event =
    EvSleep int
  | EvGetEntry GetEntryRequest
  | EvListEntryHistory ListEntryHistoryRequest
  | EvUpdateEntry UpdateEntryRequest

text \<open>
  The state a client operation runs in: the store, the outside world behind the RPC
  stubs, and the events so far.
\<close>

record 'srv world =
  heap :: store
  server :: 'srv
  events :: "event list"

definition Sleep :: "int \<Rightarrow> 'srv world \<Rightarrow> 'srv world" where
  "Sleep d w = w\<lparr>events := events w @ [EvSleep d]\<rparr>"

definition call_GetEntry ::
  "'srv Client \<Rightarrow> 'srv world \<Rightarrow> GetEntryRequest \<Rightarrow> (error + GetEntryResponse) \<times> 'srv world" where
  "call_GetEntry c w req =
    (case rpc_GetEntry (cli c) (server w) (heap w) req of
      (r, srv', s') \<Rightarrow>
        (r, w\<lparr>heap := s', server := srv', events := events w @ [EvGetEntry req]\<rparr>))"


definition call_UpdateEntry ::
  "'srv Client \<Rightarrow> 'srv world \<Rightarrow> UpdateEntryRequest \<Rightarrow>
   (error + UpdateEntryResponse) \<times> 'srv world" where
  "call_UpdateEntry c w req =
    (case rpc_UpdateEntry (cli c) (server w) (heap w) req of
      (r, srv', s') \<Rightarrow>
        (r, w\<lparr>heap := s', server := srv', events := events w @ [EvUpdateEntry req]\<rparr>))"

text \<open>\<^verbatim>\<open>c.trusted.TreeSize\<close>.\<close>

definition trustedTreeSize :: "'srv Client \<Rightarrow> 'srv world \<Rightarrow> int64" where
  "trustedTreeSize c w =
    (case logRootAt (heap w) (Some (trusted c)) of None \<Rightarrow> 0 | Some r \<Rightarrow> TreeSize r)"

text \<open>\<^verbatim>\<open>GetEntry(ctx, userID, appID)\<close> returns the profile, the map root pointer and an error.\<close>

definition GetEntry ::
  "kt_lib \<Rightarrow> 'srv Client \<Rightarrow> string \<Rightarrow> string \<Rightarrow> 'srv world \<Rightarrow>
   (error + bytes \<times> addr option) result \<times> 'srv world" where
  "GetEntry L c userID appID w =
    (case call_GetEntry c w \<lparr>get_DomainId = domainID c, get_UserId = userID,
                             get_AppId = appID, get_FirstTreeSize = trustedTreeSize c w\<rparr> of
      (Inl err, w1) \<Rightarrow> (Returned (Inl err), w1)
    | (Inr e, w1) \<Rightarrow>
      (case VerifyGetEntryResponse L (kt c) (domainID c) appID userID (heap w1)
              (Some (trusted c)) (Some e) of
        (Panicked, s2) \<Rightarrow> (Panicked, w1\<lparr>heap := s2\<rparr>)
      | (Returned (Some err), s2) \<Rightarrow> (Returned (Inl err), w1\<lparr>heap := s2\<rparr>)
      | (Returned None, s2) \<Rightarrow>
          (if GetCommitted (Some e) = None
           then (Returned (Inr ([], GetSmr (Some e))), w1\<lparr>heap := s2\<rparr>)
           else (Returned (Inr (GetData (GetCommitted (Some e)), GetSmr (Some e))),
                 w1\<lparr>heap := s2\<rparr>))))"

subsection \<open>ListHistory\<close>













subsection \<open>Update and Retry\<close>

text \<open>
  \<^verbatim>\<open>Retry(ctx, m, signers)\<close>: one submission attempt. It signs, sends, verifies the
  returned proof, compares the returned leaf with the mutation, moves the mutation's
  back pointer to that leaf, and returns \<open>ErrRetry\<close>, unwrapped, when the leaf is not yet
  the requested one. Every other error is wrapped by \<^verbatim>\<open>fmt.Errorf\<close>.
\<close>

definition Retry ::
  "kt_lib \<Rightarrow> entry_lib \<Rightarrow> 'srv Client \<Rightarrow> Mutation \<Rightarrow> Signer list \<Rightarrow> 'srv world \<Rightarrow>
   error option result \<times> Mutation \<times> 'srv world" where
  "Retry L E c m signers w =
    (case SerializeAndSign E m signers (trustedTreeSize c w) of
      (Inl err, m1) \<Rightarrow> (Returned (Some (Errorf ''SerializeAndSign'' err)), m1, w)
    | (Inr req, m1) \<Rightarrow>
      (case call_UpdateEntry c w req of
        (Inl err, w1) \<Rightarrow> (Returned (Some (Errorf ''cli.UpdateEntry'' err)), m1, w1)
      | (Inr updateResp, w1) \<Rightarrow>
        (case VerifyGetEntryResponse L (kt c) (domainID c) (AppId req) (UserId req) (heap w1)
                (Some (trusted c)) (Proof updateResp) of
          (Panicked, s2) \<Rightarrow> (Panicked, m1, w1\<lparr>heap := s2\<rparr>)
        | (Returned (Some err), s2) \<Rightarrow>
            (Returned (Some (Errorf ''VerifyGetEntryResponse'' err)), m1, w1\<lparr>heap := s2\<rparr>)
        | (Returned None, s2) \<Rightarrow>
          (let cntLeaf = GetLeafValue (GetLeaf (GetLeafProof (Proof updateResp)))
           in case Check E m1 cntLeaf of
             Inl err \<Rightarrow> (Returned (Some (Errorf ''mutation.Check'' err)), m1, w1\<lparr>heap := s2\<rparr>)
           | Inr equal \<Rightarrow>
             (case SetPrevious L E m1 cntLeaf False of
               (Some err, m2) \<Rightarrow>
                 (Returned (Some (Errorf ''mutation.SetPrevious'' err)), m2, w1\<lparr>heap := s2\<rparr>)
             | (None, m2) \<Rightarrow>
                 (if \<not> equal then (Returned (Some ErrRetry), m2, w1\<lparr>heap := s2\<rparr>)
                  else (Returned None, m2, w1\<lparr>heap := s2\<rparr>)))))))"

text \<open>
  The loop of \<^verbatim>\<open>Update\<close>:
  \<^verbatim>\<open>for i := 0; err == ErrRetry && i < c.RetryCount; i++ { time.Sleep(c.RetryDelay); err = c.Retry(...) }\<close>
  from the counter \<open>i\<close> and the error \<open>err\<close> of the previous attempt.
\<close>

function Update_retries ::
  "kt_lib \<Rightarrow> entry_lib \<Rightarrow> 'srv Client \<Rightarrow> Signer list \<Rightarrow> int \<Rightarrow> error option \<Rightarrow> Mutation \<Rightarrow>
   'srv world \<Rightarrow> error option result \<times> Mutation \<times> 'srv world" where
  "Update_retries L E c signers i err m w =
    (if err = Some ErrRetry \<and> i < RetryCount c then
       (case Retry L E c m signers (Sleep (RetryDelay c) w) of
         (Panicked, m', w') \<Rightarrow> (Panicked, m', w')
       | (Returned err', m', w') \<Rightarrow> Update_retries L E c signers (i + 1) err' m' w')
     else (Returned err, m, w))"
  by pat_completeness auto
termination
  by (relation "measure (\<lambda>(L, E, c, signers, i, err, m, w). nat (RetryCount c - i))") auto

text \<open>The submission part of \<^verbatim>\<open>Update\<close>: the first attempt, then the loop.\<close>

definition Update_submit ::
  "kt_lib \<Rightarrow> entry_lib \<Rightarrow> 'srv Client \<Rightarrow> Mutation \<Rightarrow> Signer list \<Rightarrow> 'srv world \<Rightarrow>
   error option result \<times> Mutation \<times> 'srv world" where
  "Update_submit L E c m signers w =
    (case Retry L E c m signers w of
      (Panicked, m', w') \<Rightarrow> (Panicked, m', w')
    | (Returned err, m', w') \<Rightarrow> Update_retries L E c signers 0 err m' w')"

text \<open>
  \<^verbatim>\<open>Update(ctx, appID, userID, profileData, signers, authorizedKeys)\<close> returns the mutation
  (nil before it exists) and an error.
\<close>

definition Update ::
  "kt_lib \<Rightarrow> entry_lib \<Rightarrow> 'srv Client \<Rightarrow> string \<Rightarrow> string \<Rightarrow> bytes \<Rightarrow> Signer list \<Rightarrow>
   bytes list \<Rightarrow> 'srv world \<Rightarrow> (Mutation option \<times> error option) result \<times> 'srv world" where
  "Update L E c appID userID profileData signers authorizedKeys w =
    (case call_GetEntry c w \<lparr>get_DomainId = domainID c, get_UserId = userID,
                             get_AppId = appID, get_FirstTreeSize = trustedTreeSize c w\<rparr> of
      (Inl err, w1) \<Rightarrow> (Returned (None, Some (Errorf ''GetEntry'' err)), w1)
    | (Inr getResp, w1) \<Rightarrow>
      (case VerifyGetEntryResponse L (kt c) (domainID c) appID userID (heap w1)
              (Some (trusted c)) (Some getResp) of
        (Panicked, s2) \<Rightarrow> (Panicked, w1\<lparr>heap := s2\<rparr>)
      | (Returned (Some err), s2) \<Rightarrow>
          (Returned (None, Some (Errorf ''VerifyGetEntryResponse'' err)), w1\<lparr>heap := s2\<rparr>)
      | (Returned None, s2) \<Rightarrow>
        (case kt_NewMutation c (domainID c) appID userID profileData authorizedKeys
                (GetVrfProof (Some getResp))
                (GetLeafValue (GetLeaf (GetLeafProof (Some getResp)))) of
          Inl err \<Rightarrow>
            (Returned (None, Some (Errorf ''CreateUpdateEntryRequest'' err)), w1\<lparr>heap := s2\<rparr>)
        | Inr m \<Rightarrow>
          (case Update_submit L E c m signers (w1\<lparr>heap := s2\<rparr>) of
            (Panicked, m', w') \<Rightarrow> (Panicked, w')
          | (Returned err, m', w') \<Rightarrow> (Returned (Some m', err), w')))))"

text \<open>
  The attempts as the specification describes them, for comparison with the loop:
  attempt 0 is the initial submission, and attempt \<open>n + 1\<close> sleeps for \<open>RetryDelay\<close> and
  then submits again, from the mutation and the state attempt \<open>n\<close> left behind.
\<close>

fun Update_attempt ::
  "kt_lib \<Rightarrow> entry_lib \<Rightarrow> 'srv Client \<Rightarrow> Signer list \<Rightarrow> Mutation \<Rightarrow> 'srv world \<Rightarrow> nat \<Rightarrow>
   error option result \<times> Mutation \<times> 'srv world" where
  "Update_attempt L E c signers m w 0 = Retry L E c m signers w"
| "Update_attempt L E c signers m w (Suc n) =
    (case Update_attempt L E c signers m w n of
      (r, m', w') \<Rightarrow> Retry L E c m' signers (Sleep (RetryDelay c) w'))"



section \<open>Monitor (package monitor)\<close>

text \<open>
  \<^verbatim>\<open>pb.Epoch\<close> and \<^verbatim>\<open>pb.MutationProof\<close> (the fields the monitor loop reads),
  \<^verbatim>\<open>EpochPair\<close>, and \<^verbatim>\<open>monitorstorage.Result\<close>. Pointer identity plays no part here, so
  the messages are held by value, a nil pointer being \<open>None\<close>.
\<close>

record Epoch =
  Epoch_Smr :: "SignedMapRoot option"

record MutationProof =
  Proof_Mutation :: Entry
  Proof_LeafProof :: "MapLeafInclusion option"

record EpochPair =
  A :: "Epoch option"
  B :: "Epoch option"

record Result =
  Result_Smr :: "SignedMapRoot option"
  Seen :: int
  Errors :: "error list"

definition GetEpochSmr :: "Epoch option \<Rightarrow> SignedMapRoot option" where
  "GetEpochSmr e = (case e of None \<Rightarrow> None | Some x \<Rightarrow> Epoch_Smr x)"

text \<open>
  \<^verbatim>\<open>EpochPairs\<close> reads epochs from a channel and writes pairs to another; what it writes
  for the epochs it has read is a function of their sequence. (Cancellation through the
  context, which ends it early, is not modelled.)
\<close>

fun EpochPairs_from :: "Epoch option \<Rightarrow> Epoch option list \<Rightarrow> EpochPair list" where
  "EpochPairs_from epochA [] = []"
| "EpochPairs_from epochA (epoch # rest) =
    (if epochA = None then EpochPairs_from epoch rest
     else \<lparr>A = epochA, B = epoch\<rparr> # EpochPairs_from epoch rest)"

definition EpochPairs :: "Epoch option list \<Rightarrow> EpochPair list" where
  "EpochPairs epochs = EpochPairs_from None epochs"

text \<open>
  What the loop calls outside the two functions modelled here: the mutation client's
  \<^verbatim>\<open>EpochMutations\<close>, \<^verbatim>\<open>time.Now\<close> and the storage's \<^verbatim>\<open>Set\<close>, which act on the outside
  world \<open>'e\<close>, and the monitor's own methods \<^verbatim>\<open>VerifyEpoch\<close>, \<^verbatim>\<open>verifyMutations\<close> and
  \<^verbatim>\<open>signMapRoot\<close>, which act on the monitor's fields \<open>'m\<close> (\<^verbatim>\<open>VerifyEpoch\<close> may update the
  monitor's trusted log root).
\<close>

record ('e, 'm) monitor_lib =
  EpochMutations :: "'e \<Rightarrow> Epoch option \<Rightarrow> (error + MutationProof list) \<times> 'e"
  time_Now :: "'e \<Rightarrow> int \<times> 'e"
  store_Set :: "'e \<Rightarrow> int64 \<Rightarrow> Result \<Rightarrow> error option \<times> 'e"
  VerifyEpoch :: "'m \<Rightarrow> Epoch option \<Rightarrow> error list \<times> 'm"
  verifyMutations :: "'m \<Rightarrow> MutationProof list \<Rightarrow> bytes \<Rightarrow> bytes \<Rightarrow> int64 \<Rightarrow> error list"
  signMapRoot :: "'m \<Rightarrow> SignedMapRoot option \<Rightarrow> error + SignedMapRoot option"

text \<open>
  The state of the loop: the outside world, the monitor's fields, and the calls of
  \<^verbatim>\<open>m.store.Set\<close> made so far, each with its revision and result.
\<close>

record ('e, 'm) monitor_state =
  ext :: 'e
  mon :: 'm
  set_calls :: "(int64 \<times> Result) list"

text \<open>\<^verbatim>\<open>VerifyEpochMutations(epochA, epochB, mutations)\<close>.\<close>

definition VerifyEpochMutations ::
  "('e, 'm) monitor_lib \<Rightarrow> 'm \<Rightarrow> Epoch option \<Rightarrow> Epoch option \<Rightarrow> MutationProof list \<Rightarrow>
   error list \<times> 'm" where
  "VerifyEpochMutations M ms epochA epochB mutations =
    (case VerifyEpoch M ms epochB of
      (errs, ms1) \<Rightarrow>
        (if length errs > 0 then (errs, ms1)
         else (let smrA = GetEpochSmr epochA;
                   smrB = GetEpochSmr epochB;
                   errs2 = verifyMutations M ms1 mutations (GetRootHash smrA)
                             (GetRootHash smrB) (GetMapId smrB)
               in if length errs2 > 0 then (errs2, ms1) else ([], ms1))))"

text \<open>
  The call \<^verbatim>\<open>m.store.Set(revision, &monitorstorage.Result{Smr: smr, Seen: time.Now(), Errors: errList})\<close>
  that ends the body of the loop.
\<close>

definition save_result ::
  "('e, 'm) monitor_lib \<Rightarrow> int64 \<Rightarrow> SignedMapRoot option \<Rightarrow> error list \<Rightarrow>
   ('e, 'm) monitor_state \<Rightarrow> error option \<times> ('e, 'm) monitor_state" where
  "save_result M revision smr errList st =
    (case time_Now M (ext st) of
      (t, e1) \<Rightarrow>
        (let r = \<lparr>Result_Smr = smr, Seen = t, Errors = errList\<rparr>
         in case store_Set M e1 revision r of
           (err, e2) \<Rightarrow>
             (map_option (Errorf ''monitorstorage.Set'') err,
              st\<lparr>ext := e2, set_calls := set_calls st @ [(revision, r)]\<rparr>)))"

text \<open>
  One pass through the body of \<^verbatim>\<open>for pair := range pairs\<close>: \<open>Some err\<close> is \<^verbatim>\<open>return err\<close>,
  \<open>None\<close> is the end of the body.
\<close>

definition ProcessLoop_pair ::
  "('e, 'm) monitor_lib \<Rightarrow> EpochPair \<Rightarrow> ('e, 'm) monitor_state \<Rightarrow>
   error option \<times> ('e, 'm) monitor_state" where
  "ProcessLoop_pair M pair st =
    (let revision = GetMapRevision (GetEpochSmr (B pair))
     in case EpochMutations M (ext st) (B pair) of
       (Inl err, e1) \<Rightarrow> (Some err, st\<lparr>ext := e1\<rparr>)
     | (Inr mutations, e1) \<Rightarrow>
         (case VerifyEpochMutations M (mon st) (A pair) (B pair) mutations of
           (errs, ms1) \<Rightarrow>
             (if length errs > 0
              then save_result M revision None errs (st\<lparr>ext := e1, mon := ms1\<rparr>)
              else (case signMapRoot M ms1 (GetEpochSmr (B pair)) of
                     Inl err \<Rightarrow> (Some err, st\<lparr>ext := e1, mon := ms1\<rparr>)
                   | Inr smr \<Rightarrow>
                       save_result M revision smr [] (st\<lparr>ext := e1, mon := ms1\<rparr>)))))"

fun ProcessLoop_pairs ::
  "('e, 'm) monitor_lib \<Rightarrow> EpochPair list \<Rightarrow> ('e, 'm) monitor_state \<Rightarrow>
   error option \<times> ('e, 'm) monitor_state" where
  "ProcessLoop_pairs M [] st = (None, st)"
| "ProcessLoop_pairs M (pair # rest) st =
    (case ProcessLoop_pair M pair st of
      (Some err, st') \<Rightarrow> (Some err, st')
    | (None, st') \<Rightarrow> ProcessLoop_pairs M rest st')"

text \<open>
  \<^verbatim>\<open>ProcessLoop\<close> for the pairs the pair channel delivers. \<open>errA\<close> and \<open>errB\<close> are the two
  values received from the error channel, in the order of their arrival.
\<close>

definition ProcessLoop ::
  "('e, 'm) monitor_lib \<Rightarrow> EpochPair list \<Rightarrow> error option \<Rightarrow> error option \<Rightarrow>
   ('e, 'm) monitor_state \<Rightarrow> error option \<times> ('e, 'm) monitor_state" where
  "ProcessLoop M pairs errA errB st =
    (case ProcessLoop_pairs M pairs st of
      (Some err, st') \<Rightarrow> (Some err, st')
    | (None, st') \<Rightarrow> (if errA \<noteq> None then (errA, st') else (errB, st')))"

subsection \<open>A small instance of the collaborators\<close>

text \<open>
  To run the verifier on concrete inputs the parameters are instantiated with toy
  primitives: a leaf is a tag byte followed by the commitment, a commitment is the nonce
  followed by the data, the map root of a single leaf is the index followed by the leaf,
  a signature is valid when it equals the public key, and the log verifier follows
  section 4.6 of the specification (bootstrap from tree size 0, no rewind, equal sizes
  need equal roots) with the proof being the list of the two root hashes.
\<close>

definition demo_FromLeafValue :: "bytes \<Rightarrow> error + Entry option" where
  "demo_FromLeafValue leaf =
    (if leaf = [] then Inr None
     else Inr (Some \<lparr>Index = [], Commitment = tl leaf, AuthorizedKeys = [], Previous = [],
                     Signatures = []\<rparr>))"

definition demo_commitments_Verify ::
  "string \<Rightarrow> string \<Rightarrow> bytes \<Rightarrow> bytes \<Rightarrow> bytes \<Rightarrow> error option" where
  "demo_commitments_Verify userID appID commitment dat key =
    (if commitment = key @ dat then None else Some (ErrOther ''commitment mismatch''))"

definition demo_VerifyRoot ::
  "SignedLogRoot option \<Rightarrow> SignedLogRoot option \<Rightarrow> bytes list \<Rightarrow> error option" where
  "demo_VerifyRoot old newRoot consistency =
    (case (old, newRoot) of
      (Some t, Some n) \<Rightarrow>
        (if TreeSize t = 0 then None
         else if TreeSize n <s TreeSize t then Some (ErrOther ''log rewind'')
         else if TreeSize n = TreeSize t \<and> LogRootHash n \<noteq> LogRootHash t
           then Some (ErrOther ''log fork'')
         else if consistency = [LogRootHash t, LogRootHash n] then None
         else Some (ErrOther ''bad consistency proof''))
    | _ \<Rightarrow> Some (ErrOther ''nil root''))"

definition demo_VerifyInclusionAtIndex ::
  "SignedLogRoot option \<Rightarrow> bytes \<Rightarrow> int64 \<Rightarrow> bytes list \<Rightarrow> error option" where
  "demo_VerifyInclusionAtIndex old leafData leafIndex proof =
    (case old of
      None \<Rightarrow> Some (ErrOther ''nil root'')
    | Some t \<Rightarrow>
        (if leafIndex <s TreeSize t \<and> proof = [leafData, LogRootHash t] then None
         else Some (ErrOther ''bad inclusion proof'')))"

definition demo_lib :: kt_lib where
  "demo_lib =
    \<lparr>FromLeafValue = demo_FromLeafValue,
     commitments_Verify = demo_commitments_Verify,
     VrfIndex = (\<lambda>key proof dID appID userID.
        if proof = key then Inr [7] else Inl (ErrOther ''bad vrf proof'')),
     VerifyMapInclusionProof = (\<lambda>mapID index leaf expectedRoot proof h.
        if expectedRoot = index @ leaf then None else Some (ErrOther ''bad map proof'')),
     VerifyObject = (\<lambda>pub smr sig.
        if sig = Some pub then None else Some (ErrOther ''bad signature'')),
     json_Marshal = (\<lambda>smr. Inr (GetRootHash smr))\<rparr>"

text \<open>
  The same collaborators with an encoder that, like \<^verbatim>\<open>json.Marshal\<close> on a signed map
  root, writes the signature: the root hash followed by the signature bytes.
\<close>

definition demo_lib_signed_json :: kt_lib where
  "demo_lib_signed_json =
    demo_lib\<lparr>json_Marshal := (\<lambda>smr. Inr (GetRootHash smr @
       (case GetSignature smr of None \<Rightarrow> [] | Some sg \<Rightarrow> sg)))\<rparr>"

definition demo_verifier :: Verifier where
  "demo_verifier =
    \<lparr>vrf = [3], hasher = 0, mapPubKey = [9],
     logVerifier = \<lparr>VerifyRoot = demo_VerifyRoot,
                    VerifyInclusionAtIndex = demo_VerifyInclusionAtIndex\<rparr>\<rparr>"

text \<open>
  A store with the caller's trusted root (tree size 0: the bootstrap state) at address 0
  and a newer log root of size 5 at address 1; the map root at address \<open>a\<close> is the root
  of a map holding the leaf \<open>demo_leaf a\<close> at index \<open>[7]\<close>, at map revision \<open>a\<close>. The
  response \<open>demo_resp a c\<close> is the lookup answered from the map root at address \<open>a\<close>,
  with the optional committed pair \<open>c\<close>.
\<close>

definition demo_leaf :: "addr \<Rightarrow> bytes" where
  "demo_leaf a = (if a = 1 \<or> a = 2 then [1, 2, 3] else if a = 3 then [1, 2, 4]
                  else if a = 4 then [1] else [])"

definition demo_store :: store where
  "demo_store =
    \<lparr>logRoots = [0 \<mapsto> \<lparr>LogTimestampNanos = 0, LogRootHash = [], TreeSize = 0,
                         LogSignature = [], LogId = 1\<rparr>,
                  1 \<mapsto> \<lparr>LogTimestampNanos = 10, LogRootHash = [5, 5], TreeSize = 5,
                         LogSignature = [1], LogId = 1\<rparr>],
     mapRoots = (\<lambda>a. if a < 5
                      then Some \<lparr>TimestampNanos = 10, RootHash = 7 # demo_leaf a, MapId = 4,
                                 MapRevision = of_nat a, Signature = Some [9]\<rparr>
                      else None)\<rparr>"

definition demo_resp :: "addr \<Rightarrow> Committed option \<Rightarrow> GetEntryResponse" where
  "demo_resp a c =
    \<lparr>VrfProof = [3], CommittedField = c,
     LeafProof = Some \<lparr>Leaf = Some \<lparr>LeafValue = demo_leaf a\<rparr>, Inclusion = []\<rparr>,
     Smr = Some a, LogRoot = Some 1, LogConsistency = [],
     LogInclusion = [7 # demo_leaf a, [5, 5]]\<rparr>"

text \<open>
  Toy collaborators of the mutation builder: the object hash of an entry is a zero byte
  followed by its commitment, the signature of the key \<open>pk\<close> is \<open>pk\<close> itself, a
  signature set is authorized when it holds the signature of a key of the previous
  entry (of the new entry on an initial insert), and the applier checks the hash chain
  and that the new key set is not empty.
\<close>

definition demo_verifyKeys ::
  "bytes list \<Rightarrow> bytes list \<Rightarrow> Entry \<Rightarrow> (string \<times> bytes) list \<Rightarrow> error option" where
  "demo_verifyKeys prevAuthz authz e sigs =
    (if list_ex (\<lambda>(k, sg). sg \<in> set (if prevAuthz = [] then authz else prevAuthz)) sigs
     then None else Some (ErrOther ''unauthorized signature''))"

definition demo_entry_lib :: entry_lib where
  "demo_entry_lib =
    \<lparr>nilHash = [0],
     CommonJSONify = (\<lambda>e. Inr (GetCommitment e)),
     ObjectHash = (\<lambda>j. Inr (0 # j)),
     verifyKeys = demo_verifyKeys,
     Mutate = (\<lambda>prev new.
        if Previous new \<noteq> 0 # GetCommitment prev then Inl (ErrOther ''previous hash mismatch'')
        else if AuthorizedKeys new = [] then Inl ErrMissingKey
        else Inr new),
     Check = (\<lambda>m leaf. Inr (leaf = 1 # Commitment (entry m)))\<rparr>"

definition demo_signer :: "string \<Rightarrow> bytes \<Rightarrow> Signer" where
  "demo_signer k pk = \<lparr>KeyID = k, Sign = (\<lambda>e. Inr pk)\<rparr>"

definition demo_mutation :: Mutation where
  "demo_mutation =
    \<lparr>DomainID = ''example.com'', AppID = ''app'', UserID = ''alice'', data = [3], nonce = [2],
     prevEntry = None,
     entry = \<lparr>Index = [7], Commitment = [2, 3], AuthorizedKeys = [[9, 9]], Previous = [0],
              Signatures = []\<rparr>\<rparr>"

text \<open>
  A toy server for the client: its state counts the calls served. The history of the
  user has four epochs (absent, then the profile \<open>[3]\<close> twice, then the profile \<open>[4]\<close>)
  and is listed in pages of at most two epochs; an update becomes visible once the
  server has served two calls.
\<close>

definition demo_history :: "GetEntryResponse list" where
  "demo_history =
    [demo_resp 0 None,
     demo_resp 1 (Some \<lparr>Key = [2], Data = [3]\<rparr>),
     demo_resp 2 (Some \<lparr>Key = [2], Data = [3]\<rparr>),
     demo_resp 3 (Some \<lparr>Key = [2], Data = [4]\<rparr>)]"

definition demo_rpc :: "nat KeyTransparencyClient" where
  "demo_rpc =
    \<lparr>rpc_GetEntry = (\<lambda>srv s req. (Inr (demo_resp 0 None), Suc srv, s)),
     rpc_ListEntryHistory = (\<lambda>srv s req.
        (Inr \<lparr>Values = take (min 2 (unat (PageSize req))) (drop (unat (Start req)) demo_history),
              NextStart = (if unat (Start req) + min 2 (unat (PageSize req)) < length demo_history
                           then Start req + of_nat (min 2 (unat (PageSize req))) else 0)\<rparr>,
         Suc srv, s)),
     rpc_UpdateEntry = (\<lambda>srv s req.
        (Inr \<lparr>Proof = Some (if srv < 2 then demo_resp 0 None
                             else demo_resp 1 (Some \<lparr>Key = [2], Data = [3]\<rparr>))\<rparr>,
         Suc srv, s))\<rparr>"

definition demo_client :: "int \<Rightarrow> nat Client" where
  "demo_client retries =
    \<lparr>cli = demo_rpc, domainID = ''example.com'', kt = demo_verifier, RetryCount = retries,
     RetryDelay = 3000000000, trusted = 0,
     kt_NewMutation = (\<lambda>dID appID userID profileData authorizedKeys vrfProof leaf.
        Inr demo_mutation)\<rparr>"

definition demo_world :: "nat world" where
  "demo_world = \<lparr>heap = demo_store, server = 0, events = []\<rparr>"

text \<open>Whether the committed pair \<open>c\<close> opens the toy commitment of the leaf at address \<open>a\<close>.\<close>

definition demo_commit_ok :: "addr \<Rightarrow> Committed option \<Rightarrow> bool" where
  "demo_commit_ok a c =
    (case c of None \<Rightarrow> True | Some x \<Rightarrow> tl (demo_leaf a) = Key x @ Data x)"

text \<open>
  The request the toy client submits for \<open>demo_mutation\<close> signed with the key \<open>[9, 9]\<close>, the
  mutation after signing, and the mutation once the server has echoed the new leaf.
\<close>

definition demo_signed_mutation :: Mutation where
  "demo_signed_mutation =
    demo_mutation\<lparr>entry := (entry demo_mutation)\<lparr>Signatures := [(''k1'', [9, 9])]\<rparr>\<rparr>"

definition demo_request :: UpdateEntryRequest where
  "demo_request =
    \<lparr>DomainId = ''example.com'', UserId = ''alice'', AppId = ''app'', FirstTreeSize = 0,
     EntryUpdateField =
       \<lparr>upd_Mutation = entry demo_signed_mutation,
        upd_Committed = \<lparr>Key = [2], Data = [3]\<rparr>\<rparr>\<rparr>"

definition demo_applied_mutation :: Mutation where
  "demo_applied_mutation =
    demo_signed_mutation
      \<lparr>prevEntry := Some \<lparr>Index = [], Commitment = [2, 3], AuthorizedKeys = [],
                           Previous = [], Signatures = []\<rparr>,
       entry := (entry demo_signed_mutation)\<lparr>Previous := [0, 2, 3]\<rparr>\<rparr>"

definition demo_GetEntryRequest :: GetEntryRequest where
  "demo_GetEntryRequest =
    \<lparr>get_DomainId = ''example.com'', get_UserId = ''alice'', get_AppId = ''app'',
     get_FirstTreeSize = 0\<rparr>"

text \<open>
  A toy monitor: the outside world is a clock that ticks at every reading, an epoch
  verifies when its map root has a non-empty root hash, and countersigning sets the
  signature to \<open>[42]\<close>. Three epochs, the second of which does not verify.
\<close>

definition demo_monitor_lib :: "(int, unit) monitor_lib" where
  "demo_monitor_lib =
    \<lparr>EpochMutations = (\<lambda>e epoch. (Inr [], e)),
     time_Now = (\<lambda>e. (e, e + 1)),
     store_Set = (\<lambda>e revision r. (None, e)),
     VerifyEpoch = (\<lambda>ms epoch.
        (if GetRootHash (GetEpochSmr epoch) = [] then [ErrOther ''invalid epoch''] else [], ms)),
     verifyMutations = (\<lambda>ms mutations rootA rootB mapID. []),
     signMapRoot = (\<lambda>ms smr. Inr (map_option (\<lambda>x. x\<lparr>Signature := Some [42]\<rparr>) smr))\<rparr>"

definition demo_epoch :: "int64 \<Rightarrow> bytes \<Rightarrow> Epoch option" where
  "demo_epoch revision root =
    Some \<lparr>Epoch_Smr = Some \<lparr>TimestampNanos = 0, RootHash = root, MapId = 4,
                             MapRevision = revision, Signature = Some [9]\<rparr>\<rparr>"

definition demo_monitor_state :: "(int, unit) monitor_state" where
  "demo_monitor_state = \<lparr>ext = 100, mon = (), set_calls = []\<rparr>"


text \<open>
  The toy monitor with a signer that is out of service, and the toy monitor with a
  mutation client that cannot fetch.
\<close>

definition demo_monitor_lib_no_signer :: "(int, unit) monitor_lib" where
  "demo_monitor_lib_no_signer =
    demo_monitor_lib\<lparr>signMapRoot := (\<lambda>ms smr. Inl (ErrOther ''signer unavailable''))\<rparr>"

definition demo_monitor_lib_no_fetch :: "(int, unit) monitor_lib" where
  "demo_monitor_lib_no_fetch =
    demo_monitor_lib\<lparr>EpochMutations := (\<lambda>e epoch. (Inl (ErrOther ''fetch failed''), e))\<rparr>"
section \<open>Properties of the response verifier\<close>

lemmas getters =
  GetLeafProof_def GetLeaf_def GetInclusion_def GetLeafValue_def GetCommitted_def
  GetData_def GetKey_def GetVrfProof_def GetSmr_def GetLogRoot_def GetLogConsistency_def
  GetLogInclusion_def GetRootHash_def GetMapId_def GetMapRevision_def GetSignature_def
  GetCommitment_def GetAuthorizedKeys_def logRootAt_def mapRootAt_def

lemmas demo_defs =
  demo_lib_def demo_verifier_def demo_store_def demo_resp_def demo_leaf_def
  demo_FromLeafValue_def word_sless_alt
  demo_commitments_Verify_def demo_VerifyRoot_def demo_VerifyInclusionAtIndex_def

lemma VerifyGetEntryResponse_store:
  "snd (VerifyGetEntryResponse L v dID appID userID s tr resp) = s"
  by (simp add: VerifyGetEntryResponse_def Let_def split: sum.splits option.splits)

lemma demo_present_ok:
  "VerifyGetEntryResponse demo_lib demo_verifier ''example.com'' ''app'' ''alice'' demo_store
     (Some 0) (Some (demo_resp 1 (Some \<lparr>Key = [2], Data = [3]\<rparr>)))
   = (Returned None, demo_store)"
  by (simp add: VerifyGetEntryResponse_def demo_defs getters Let_def)


lemma demo_GetEntry:
  "GetEntry demo_lib (demo_client 1) ''alice'' ''app'' demo_world
     = (Returned (Inr ([], Some 0)),
        demo_world\<lparr>server := 1, events := [EvGetEntry demo_GetEntryRequest]\<rparr>)"
proof -
  have v: "VerifyGetEntryResponse demo_lib demo_verifier ''example.com'' ''app'' ''alice''
             demo_store (Some 0) (Some (demo_resp 0 None)) = (Returned None, demo_store)"
    by (simp add: VerifyGetEntryResponse_def demo_defs getters Let_def)
  have t: "trustedTreeSize (demo_client 1) demo_world = 0"
    by (simp add: trustedTreeSize_def demo_client_def demo_world_def demo_store_def
        logRootAt_def)
  have c: "call_GetEntry (demo_client 1) demo_world req
             = (Inr (demo_resp 0 None), demo_world\<lparr>server := 1, events := [EvGetEntry req]\<rparr>)"
    for req
    by (simp add: call_GetEntry_def demo_client_def demo_rpc_def demo_world_def)
  show ?thesis
    unfolding GetEntry_def t c
    by (simp add: demo_client_def v demo_world_def demo_GetEntryRequest_def)
       (simp add: demo_resp_def getters)
qed

text \<open>
  C1 does not hold for the code. The claim: a call that returns without
  error overwrites the caller's trusted log root with \<^verbatim>\<open>response.log_root\<close>, so that a
  later call starts from the advanced root. In the code the assignment
  \<^verbatim>\<open>trusted = in.GetLogRoot()\<close> only rebinds the local pointer. Evaluated on the instance
  above: the call is accepted, and afterwards the object at the caller's address 0 is
  still the bootstrap root of tree size 0, not the response's root of tree size 5 at
  address 1. Likewise \<open>GetEntry\<close> returns the (absent) profile without error, and the tree
  size the client sends with its next request, \<^verbatim>\<open>c.trusted.TreeSize\<close>, is still 0.
\<close>

theorem VerifyGetEntryResponse_success_leaves_caller_root:
  "fst (VerifyGetEntryResponse demo_lib demo_verifier ''example.com'' ''app'' ''alice''
          demo_store (Some 0) (Some (demo_resp 1 (Some \<lparr>Key = [2], Data = [3]\<rparr>))))
     = Returned None
   \<and> logRootAt (snd (VerifyGetEntryResponse demo_lib demo_verifier ''example.com'' ''app''
          ''alice'' demo_store (Some 0)
          (Some (demo_resp 1 (Some \<lparr>Key = [2], Data = [3]\<rparr>))))) (Some 0)
     = logRootAt demo_store (Some 0)
   \<and> map_option TreeSize (logRootAt demo_store (Some 0)) = Some 0
   \<and> map_option TreeSize (logRootAt demo_store
          (GetLogRoot (Some (demo_resp 1 (Some \<lparr>Key = [2], Data = [3]\<rparr>))))) = Some 5
   \<and> fst (GetEntry demo_lib (demo_client 1) ''alice'' ''app'' demo_world)
     = Returned (Inr ([], Some 0))
   \<and> trustedTreeSize (demo_client 1)
        (snd (GetEntry demo_lib (demo_client 1) ''alice'' ''app'' demo_world)) = 0"
  unfolding demo_present_ok demo_GetEntry
  by (simp add: demo_defs getters trustedTreeSize_def demo_client_def demo_world_def)

text \<open>
  C2. Whenever \<open>VerifyGetEntryResponse\<close> returns an error, at whichever step, the store is
  the one it was called with; in particular the object behind the caller's pointer \<open>tr\<close>
  pointer is unchanged.
\<close>

theorem VerifyGetEntryResponse_error_keeps_trusted:
  assumes "VerifyGetEntryResponse L v dID appID userID s tr resp
             = (Returned (Some err), s')"
  shows "s' = s \<and> logRootAt s' tr = logRootAt s tr"
proof -
  have "s' = s"
    using assms VerifyGetEntryResponse_store [of L v dID appID userID s tr resp]
    by simp
  then show ?thesis by simp
qed

lemma demo_bad_inclusion:
  "VerifyGetEntryResponse demo_lib demo_verifier ''example.com'' ''app'' ''alice'' demo_store
     (Some 0) (Some ((demo_resp 1 (Some \<lparr>Key = [2], Data = [3]\<rparr>))\<lparr>LogInclusion := []\<rparr>))
   = (Returned (Some (Errorf ''VerifyInclusionAtIndex'' (ErrOther ''bad inclusion proof''))),
      demo_store)"
  by (simp add: VerifyGetEntryResponse_def demo_defs getters Let_def)

theorem VerifyGetEntryResponse_error_keeps_trusted_witness:
  "VerifyGetEntryResponse demo_lib demo_verifier ''example.com'' ''app'' ''alice'' demo_store
     (Some 0) (Some ((demo_resp 1 (Some \<lparr>Key = [2], Data = [3]\<rparr>))\<lparr>LogInclusion := []\<rparr>))
   = (Returned (Some (Errorf ''VerifyInclusionAtIndex'' (ErrOther ''bad inclusion proof''))),
      demo_store)
   \<and> logRootAt demo_store (Some 0) = logRootAt demo_store (Some 0)"
  using VerifyGetEntryResponse_error_keeps_trusted [OF demo_bad_inclusion] demo_bad_inclusion
  by simp

text \<open>
  C3, as stated, does not hold. The claim: with \<^verbatim>\<open>committed\<close> absent the verifier still
  fails unless the decoded leaf's commitment matches its declared state, a present leaf
  carrying a non-empty commitment. The code makes no such check. Counterexample: the
  leaf \<open>[1]\<close> is present (non-empty) and decodes to an entry whose commitment is empty,
  \<^verbatim>\<open>committed\<close> is absent, and the response is accepted.
\<close>

theorem VerifyGetEntryResponse_absent_committed_counterexample:
  "GetCommitted (Some (demo_resp 4 None)) = None
   \<and> GetLeafValue (GetLeaf (GetLeafProof (Some (demo_resp 4 None)))) = [1]
   \<and> map_sum id (map_option Commitment) (FromLeafValue demo_lib [1]) = Inr (Some [])
   \<and> fst (VerifyGetEntryResponse demo_lib demo_verifier ''example.com'' ''app'' ''alice''
        demo_store (Some 0) (Some (demo_resp 4 None)))
       = Returned None"
  by (simp add: VerifyGetEntryResponse_def demo_defs getters Let_def)

text \<open>
  C3, what holds instead. With \<^verbatim>\<open>committed\<close> absent the verifier skips the commitment
  opening and never looks at the decoded entry: if the leaf does not decode it returns
  that error, and otherwise its outcome is exactly that of the remaining steps, in
  their order (VRF index, presence of the leaf proof, sparse Merkle inclusion, the
  dereference of the map root, which panics when it is nil, its signature, log
  consistency, the encoding of the map root, log inclusion). So the outcome is the same whatever entry the leaf decodes to and
  whatever the commitment scheme would answer.
\<close>

theorem VerifyGetEntryResponse_absent_committed_remaining_steps:
  assumes "GetCommitted resp = None"
  shows
   "VerifyGetEntryResponse L v dID appID userID s tr resp =
     (case FromLeafValue L (GetLeafValue (GetLeaf (GetLeafProof resp))) of
       Inl err \<Rightarrow> (Returned (Some err), s)
     | Inr e \<Rightarrow>
       (case VrfIndex L (vrf v) (GetVrfProof resp) dID appID userID of
         Inl err \<Rightarrow> (Returned (Some err), s)
       | Inr index \<Rightarrow>
         (case GetLeafProof resp of
           None \<Rightarrow> (Returned (Some ErrNilProof), s)
         | Some leafProof \<Rightarrow>
           (case VerifyMapInclusionProof L (GetMapId (mapRootAt s (GetSmr resp))) index
                   (GetLeafValue (Leaf leafProof)) (GetRootHash (mapRootAt s (GetSmr resp)))
                   (Inclusion leafProof) (hasher v) of
             Some err \<Rightarrow> (Returned (Some (Errorf ''VerifyMapInclusionProof'' err)), s)
           | None \<Rightarrow>
             (case mapRootAt s (GetSmr resp) of
               None \<Rightarrow> (Panicked, s)
             | Some smr \<Rightarrow>
               (case VerifyObject L (mapPubKey v) (smr\<lparr>Signature := None\<rparr>) (Signature smr) of
                 Some err \<Rightarrow> (Returned (Some (Errorf ''sig.Verify(SMR)'' err)), s)
               | None \<Rightarrow>
                 (case VerifyRoot (logVerifier v) (logRootAt s tr)
                         (logRootAt s (GetLogRoot resp)) (GetLogConsistency resp) of
                   Some err \<Rightarrow> (Returned (Some (Errorf ''VerifyRoot'' err)), s)
                 | None \<Rightarrow>
                   (case json_Marshal L (Some smr) of
                     Inl err \<Rightarrow> (Returned (Some (Errorf ''json.Marshal'' err)), s)
                   | Inr b \<Rightarrow>
                       (Returned (map_option (Errorf ''VerifyInclusionAtIndex'')
                          (VerifyInclusionAtIndex (logVerifier v)
                             (logRootAt s (GetLogRoot resp)) b (MapRevision smr)
                             (GetLogInclusion resp))), s)))))))))
    \<and> VerifyGetEntryResponse (L\<lparr>FromLeafValue := (\<lambda>leaf. Inr e1), commitments_Verify := cv1\<rparr>)
          v dID appID userID s tr resp
      = VerifyGetEntryResponse (L\<lparr>FromLeafValue := (\<lambda>leaf. Inr e2), commitments_Verify := cv2\<rparr>)
          v dID appID userID s tr resp"
  using assms
  by (simp add: VerifyGetEntryResponse_def Let_def GetLeaf_def GetInclusion_def
      GetSignature_def GetMapRevision_def split: sum.splits option.splits)

theorem VerifyGetEntryResponse_absent_committed_remaining_steps_witness:
  "GetCommitted (Some (demo_resp 4 None)) = None
   \<and> VerifyGetEntryResponse demo_lib demo_verifier ''example.com'' ''app'' ''alice'' demo_store
        (Some 0) (Some (demo_resp 4 None)) = (Returned None, demo_store)
   \<and> VerifyGetEntryResponse demo_lib demo_verifier ''example.com'' ''app'' ''alice'' demo_store
        (Some 0) (Some ((demo_resp 4 None)\<lparr>VrfProof := [8]\<rparr>))
       = (Returned (Some (ErrOther ''bad vrf proof'')), demo_store)
   \<and> VerifyGetEntryResponse
        (demo_lib\<lparr>FromLeafValue := (\<lambda>leaf. Inr None), commitments_Verify := demo_commitments_Verify\<rparr>)
        demo_verifier ''example.com'' ''app'' ''alice'' demo_store (Some 0)
        (Some (demo_resp 4 None))
     = VerifyGetEntryResponse
        (demo_lib\<lparr>FromLeafValue := (\<lambda>leaf. Inr (Some \<lparr>Index = [], Commitment = [8],
                       AuthorizedKeys = [], Previous = [], Signatures = []\<rparr>)),
                   commitments_Verify := (\<lambda>u a c d n. None)\<rparr>)
        demo_verifier ''example.com'' ''app'' ''alice'' demo_store (Some 0)
        (Some (demo_resp 4 None))"
proof -
  have h: "GetCommitted (Some (demo_resp 4 None)) = None"
    by (simp add: demo_defs getters)
  have h': "GetCommitted (Some ((demo_resp 4 None)\<lparr>VrfProof := [8]\<rparr>)) = None"
    by (simp add: demo_defs getters)
  have a: "VerifyGetEntryResponse demo_lib demo_verifier ''example.com'' ''app'' ''alice''
             demo_store (Some 0) (Some (demo_resp 4 None)) = (Returned None, demo_store)"
    unfolding VerifyGetEntryResponse_absent_committed_remaining_steps [OF h, THEN conjunct1]
    by (simp add: demo_defs getters)
  have b: "VerifyGetEntryResponse demo_lib demo_verifier ''example.com'' ''app'' ''alice''
             demo_store (Some 0) (Some ((demo_resp 4 None)\<lparr>VrfProof := [8]\<rparr>))
           = (Returned (Some (ErrOther ''bad vrf proof'')), demo_store)"
    unfolding VerifyGetEntryResponse_absent_committed_remaining_steps [OF h', THEN conjunct1]
    by (simp add: demo_defs getters)
  show ?thesis
    using h a b VerifyGetEntryResponse_absent_committed_remaining_steps [OF h, THEN conjunct2]
    by simp
qed

text \<open>
  C4, as stated, does not hold. The claim: the leaf bytes whose log inclusion is verified
  are the canonical object-hash JSON encoding of the map root. The code hands the
  response's map root as received, signature included, to \<^verbatim>\<open>json.Marshal\<close> and verifies
  the inclusion of those bytes; it computes no canonical form. Counterexample, with an
  encoder that, as \<^verbatim>\<open>json.Marshal\<close> does, writes the signature: a response whose inclusion
  proof is for the encoding of the signed map root is accepted, and the same response
  with an inclusion proof for the canonical bytes (signature excluded) is rejected at the
  last step.
\<close>

theorem VerifyGetEntryResponse_canonical_bytes_counterexample:
  "json_Marshal demo_lib_signed_json (mapRootAt demo_store (Some 1)) = Inr [7, 1, 2, 3, 9]
   \<and> map_option (canonical_SMR_bytes demo_lib_signed_json) (mapRootAt demo_store (Some 1))
       = Some (Inr [7, 1, 2, 3])
   \<and> fst (VerifyGetEntryResponse demo_lib_signed_json demo_verifier ''example.com'' ''app''
          ''alice'' demo_store (Some 0)
          (Some ((demo_resp 1 (Some \<lparr>Key = [2], Data = [3]\<rparr>))
                   \<lparr>LogInclusion := [[7, 1, 2, 3, 9], [5, 5]]\<rparr>)))
       = Returned None
   \<and> fst (VerifyGetEntryResponse demo_lib_signed_json demo_verifier ''example.com'' ''app''
          ''alice'' demo_store (Some 0)
          (Some ((demo_resp 1 (Some \<lparr>Key = [2], Data = [3]\<rparr>))
                   \<lparr>LogInclusion := [[7, 1, 2, 3], [5, 5]]\<rparr>)))
       = Returned (Some (Errorf ''VerifyInclusionAtIndex'' (ErrOther ''bad inclusion proof'')))"
  by (simp add: VerifyGetEntryResponse_def demo_lib_signed_json_def canonical_SMR_bytes_def
      demo_defs getters Let_def)

text \<open>
  C4, what holds instead. The verifier accepts exactly when all steps pass, and once the
  steps before have passed its outcome is that of the last two: the bytes are those
  \<^verbatim>\<open>json.Marshal\<close> returns for the response's map root as it was received (the stored
  root, whose signature field was cleared only in the copy handed to the signature
  check), and the inclusion of these bytes is checked at leaf index \<open>MapRevision\<close> of that
  map root, within the response's log root, the one just accepted by the consistency
  step (the rebound local \<^verbatim>\<open>trusted\<close>), not within the root the caller passed in.
\<close>

theorem VerifyGetEntryResponse_log_inclusion_of_marshalled_smr:
  "(fst (VerifyGetEntryResponse L v dID appID userID s tr resp) = Returned None \<longleftrightarrow>
    (\<exists>e index leafProof smr b.
       FromLeafValue L (GetLeafValue (GetLeaf (GetLeafProof resp))) = Inr e \<and>
       (GetCommitted resp \<noteq> None \<longrightarrow>
          commitments_Verify L userID appID (GetCommitment e) (GetData (GetCommitted resp))
            (GetKey (GetCommitted resp)) = None) \<and>
       VrfIndex L (vrf v) (GetVrfProof resp) dID appID userID = Inr index \<and>
       GetLeafProof resp = Some leafProof \<and>
       mapRootAt s (GetSmr resp) = Some smr \<and>
       VerifyMapInclusionProof L (MapId smr) index (GetLeafValue (Leaf leafProof))
         (RootHash smr) (Inclusion leafProof) (hasher v) = None \<and>
       VerifyObject L (mapPubKey v) (smr\<lparr>Signature := None\<rparr>) (Signature smr) = None \<and>
       VerifyRoot (logVerifier v) (logRootAt s tr) (logRootAt s (GetLogRoot resp))
         (GetLogConsistency resp) = None \<and>
       json_Marshal L (Some smr) = Inr b \<and>
       VerifyInclusionAtIndex (logVerifier v) (logRootAt s (GetLogRoot resp)) b
         (MapRevision smr) (GetLogInclusion resp) = None))
   \<and> (\<forall>e index leafProof smr.
       FromLeafValue L (GetLeafValue (GetLeaf (GetLeafProof resp))) = Inr e \<longrightarrow>
       (GetCommitted resp \<noteq> None \<longrightarrow>
          commitments_Verify L userID appID (GetCommitment e) (GetData (GetCommitted resp))
            (GetKey (GetCommitted resp)) = None) \<longrightarrow>
       VrfIndex L (vrf v) (GetVrfProof resp) dID appID userID = Inr index \<longrightarrow>
       GetLeafProof resp = Some leafProof \<longrightarrow>
       mapRootAt s (GetSmr resp) = Some smr \<longrightarrow>
       VerifyMapInclusionProof L (MapId smr) index (GetLeafValue (Leaf leafProof))
         (RootHash smr) (Inclusion leafProof) (hasher v) = None \<longrightarrow>
       VerifyObject L (mapPubKey v) (smr\<lparr>Signature := None\<rparr>) (Signature smr) = None \<longrightarrow>
       VerifyRoot (logVerifier v) (logRootAt s tr) (logRootAt s (GetLogRoot resp))
         (GetLogConsistency resp) = None \<longrightarrow>
       VerifyGetEntryResponse L v dID appID userID s tr resp =
         (case json_Marshal L (Some smr) of
           Inl err \<Rightarrow> (Returned (Some (Errorf ''json.Marshal'' err)), s)
         | Inr b \<Rightarrow>
             (Returned (map_option (Errorf ''VerifyInclusionAtIndex'')
                (VerifyInclusionAtIndex (logVerifier v) (logRootAt s (GetLogRoot resp)) b
                   (MapRevision smr) (GetLogInclusion resp))), s)))"
  (is "(?A \<longleftrightarrow> ?B) \<and> ?C")
proof -
  have accepts: "?A \<longleftrightarrow> ?B"
    unfolding VerifyGetEntryResponse_def Let_def
    by (auto simp: GetLeaf_def GetInclusion_def GetRootHash_def GetMapId_def
        GetMapRevision_def GetSignature_def split: sum.splits option.splits)
  have last_steps: "?C"
  proof (intro allI impI)
    fix e index leafProof smr
    assume a: "FromLeafValue L (GetLeafValue (GetLeaf (GetLeafProof resp))) = Inr e"
      "GetCommitted resp \<noteq> None \<longrightarrow>
        commitments_Verify L userID appID (GetCommitment e) (GetData (GetCommitted resp))
          (GetKey (GetCommitted resp)) = None"
      "VrfIndex L (vrf v) (GetVrfProof resp) dID appID userID = Inr index"
      "GetLeafProof resp = Some leafProof"
      "mapRootAt s (GetSmr resp) = Some smr"
      "VerifyMapInclusionProof L (MapId smr) index (GetLeafValue (Leaf leafProof))
         (RootHash smr) (Inclusion leafProof) (hasher v) = None"
      "VerifyObject L (mapPubKey v) (smr\<lparr>Signature := None\<rparr>) (Signature smr) = None"
      "VerifyRoot (logVerifier v) (logRootAt s tr) (logRootAt s (GetLogRoot resp))
         (GetLogConsistency resp) = None"
    show "VerifyGetEntryResponse L v dID appID userID s tr resp =
           (case json_Marshal L (Some smr) of
             Inl err \<Rightarrow> (Returned (Some (Errorf ''json.Marshal'' err)), s)
           | Inr b \<Rightarrow>
               (Returned (map_option (Errorf ''VerifyInclusionAtIndex'')
                  (VerifyInclusionAtIndex (logVerifier v) (logRootAt s (GetLogRoot resp)) b
                     (MapRevision smr) (GetLogInclusion resp))), s))"
      using a unfolding VerifyGetEntryResponse_def Let_def
      by (cases "GetCommitted resp"; cases "json_Marshal L (Some smr)")
         (simp_all add: GetLeaf_def GetInclusion_def GetRootHash_def GetMapId_def
            GetMapRevision_def GetSignature_def split: option.split)
  qed
  show ?thesis
    by (rule conjI [OF accepts last_steps])
qed

theorem VerifyGetEntryResponse_log_inclusion_of_marshalled_smr_witness:
  "fst (VerifyGetEntryResponse demo_lib_signed_json demo_verifier ''example.com'' ''app''
          ''alice'' demo_store (Some 0)
          (Some ((demo_resp 1 (Some \<lparr>Key = [2], Data = [3]\<rparr>))
                   \<lparr>LogInclusion := [[7, 1, 2, 3, 9], [5, 5]]\<rparr>)))
     = Returned None
   \<and> json_Marshal demo_lib_signed_json (mapRootAt demo_store (Some 1)) = Inr [7, 1, 2, 3, 9]
   \<and> map_option MapRevision (mapRootAt demo_store (Some 1)) = Some 1
   \<and> VerifyInclusionAtIndex (logVerifier demo_verifier) (logRootAt demo_store (Some 1))
        [7, 1, 2, 3, 9] 1 [[7, 1, 2, 3, 9], [5, 5]] = None
   \<and> VerifyInclusionAtIndex (logVerifier demo_verifier) (logRootAt demo_store (Some 0))
        [7, 1, 2, 3, 9] 1 [[7, 1, 2, 3, 9], [5, 5]] \<noteq> None
   \<and> VerifyGetEntryResponse demo_lib_signed_json demo_verifier ''example.com'' ''app''
        ''alice'' demo_store (Some 0)
        (Some ((demo_resp 1 (Some \<lparr>Key = [2], Data = [3]\<rparr>))\<lparr>LogInclusion := []\<rparr>))
     = (Returned (Some (Errorf ''VerifyInclusionAtIndex'' (ErrOther ''bad inclusion proof''))),
        demo_store)"
  using VerifyGetEntryResponse_log_inclusion_of_marshalled_smr
          [where L = demo_lib_signed_json and v = demo_verifier and dID = "''example.com''"
             and appID = "''app''" and userID = "''alice''" and s = demo_store
             and tr = "Some 0"
             and resp = "Some ((demo_resp 1 (Some \<lparr>Key = [2], Data = [3]\<rparr>))
                                \<lparr>LogInclusion := [[7, 1, 2, 3, 9], [5, 5]]\<rparr>)"]
  by (simp add: VerifyGetEntryResponse_def demo_lib_signed_json_def demo_defs getters Let_def)

section \<open>Properties of the mutation builder\<close>

lemmas demo_entry_defs =
  demo_entry_lib_def demo_verifyKeys_def demo_signer_def demo_mutation_def

lemma sign_loop_origin:
  "sign_loop signers e sigs0 = Inr sigs \<Longrightarrow> map_of sigs k = Some sg \<Longrightarrow>
   map_of sigs0 k = Some sg \<or> (\<exists>sr \<in> set signers. KeyID sr = k \<and> Sign sr e = Inr sg)"
proof (induction signers arbitrary: sigs0)
  case Nil
  then show ?case by simp
next
  case (Cons signer rest)
  from Cons.prems(1) obtain sig where
    s: "Sign signer e = Inr sig" and
    r: "sign_loop rest e (AList.update (KeyID signer) sig sigs0) = Inr sigs"
    by (auto split: sum.splits)
  from Cons.IH [OF r Cons.prems(2)] show ?case
  proof
    assume "map_of (AList.update (KeyID signer) sig sigs0) k = Some sg"
    then show ?thesis
      using s by (auto simp: update_conv' split: if_splits)
  next
    assume "\<exists>sr \<in> set rest. KeyID sr = k \<and> Sign sr e = Inr sg"
    then show ?thesis by auto
  qed
qed

lemma sign_result:
  "sign m signers =
    (case sign_loop signers ((entry m)\<lparr>Signatures := []\<rparr>) [] of
      Inl err \<Rightarrow> (Inl err, m\<lparr>entry := (entry m)\<lparr>Signatures := []\<rparr>\<rparr>)
    | Inr sigs \<Rightarrow> (Inr ((entry m)\<lparr>Signatures := sigs\<rparr>), m\<lparr>entry := (entry m)\<lparr>Signatures := sigs\<rparr>\<rparr>))"
  by (simp add: sign_def Let_def split: sum.splits)

text \<open>
  C5. If a signer fails, \<open>SerializeAndSign\<close> returns that error. Otherwise \<open>sign\<close> yields the
  new entry carrying the signatures just made, each of them by one of the signers over
  the entry with its signatures cleared, and \<open>SerializeAndSign\<close> emits a request exactly
  when (a) \<open>verifyKeys\<close> authorizes these signatures over the entry with signatures
  cleared against the previous entry's authorized keys and (b) the dry run
  \<open>Mutate prevEntry mutation\<close> succeeds; the request then carries the signed entry and the
  committed pair (nonce, data). In every other case it returns an error and no request.
\<close>

theorem SerializeAndSign_emits_iff_authorized_and_dry_run:
  "case sign m signers of
     (Inl err, m') \<Rightarrow> SerializeAndSign E m signers tts = (Inl err, m')
   | (Inr mutation, m') \<Rightarrow>
       mutation\<lparr>Signatures := []\<rparr> = (entry m)\<lparr>Signatures := []\<rparr> \<and>
       (\<forall>k sg. map_of (Signatures mutation) k = Some sg \<longrightarrow>
          (\<exists>sr \<in> set signers. KeyID sr = k \<and> Sign sr ((entry m)\<lparr>Signatures := []\<rparr>) = Inr sg)) \<and>
       (if verifyKeys E (GetAuthorizedKeys (prevEntry m)) (AuthorizedKeys (entry m))
             (mutation\<lparr>Signatures := []\<rparr>) (Signatures mutation) = None
           \<and> (\<exists>u. Mutate E (prevEntry m) mutation = Inr u)
        then SerializeAndSign E m signers tts =
               (Inr \<lparr>DomainId = DomainID m, UserId = UserID m, AppId = AppID m,
                     FirstTreeSize = tts,
                     EntryUpdateField = \<lparr>upd_Mutation = mutation,
                                         upd_Committed = \<lparr>Key = nonce m, Data = data m\<rparr>\<rparr>\<rparr>,
                m')
        else (\<exists>err. SerializeAndSign E m signers tts = (Inl err, m')))"
proof (cases "sign_loop signers ((entry m)\<lparr>Signatures := []\<rparr>) []")
  case (Inl err)
  then show ?thesis
    by (simp add: SerializeAndSign_def sign_result)
next
  case (Inr sigs)
  have origin: "\<forall>k sg. map_of sigs k = Some sg \<longrightarrow>
      (\<exists>sr \<in> set signers. KeyID sr = k \<and> Sign sr ((entry m)\<lparr>Signatures := []\<rparr>) = Inr sg)"
    using sign_loop_origin [OF Inr] by fastforce
  show ?thesis
    using Inr origin
    by (auto simp: SerializeAndSign_def sign_result Let_def split: option.splits sum.splits)
qed

theorem SerializeAndSign_emits_iff_authorized_and_dry_run_witness:
  "SerializeAndSign demo_entry_lib demo_mutation [demo_signer ''k1'' [9, 9]] 5 =
     (Inr \<lparr>DomainId = ''example.com'', UserId = ''alice'', AppId = ''app'', FirstTreeSize = 5,
           EntryUpdateField =
             \<lparr>upd_Mutation = (entry demo_mutation)\<lparr>Signatures := [(''k1'', [9, 9])]\<rparr>,
              upd_Committed = \<lparr>Key = [2], Data = [3]\<rparr>\<rparr>\<rparr>,
      demo_mutation\<lparr>entry := (entry demo_mutation)\<lparr>Signatures := [(''k1'', [9, 9])]\<rparr>\<rparr>)
   \<and> (\<exists>err. SerializeAndSign demo_entry_lib demo_mutation [demo_signer ''k2'' [8]] 5 =
         (Inl err, demo_mutation\<lparr>entry := (entry demo_mutation)\<lparr>Signatures := [(''k2'', [8])]\<rparr>\<rparr>))"
  using SerializeAndSign_emits_iff_authorized_and_dry_run
          [where m = demo_mutation and signers = "[demo_signer ''k1'' [9, 9]]"
             and E = demo_entry_lib and tts = 5]
        SerializeAndSign_emits_iff_authorized_and_dry_run
          [where m = demo_mutation and signers = "[demo_signer ''k2'' [8]]"
             and E = demo_entry_lib and tts = 5]
  by (simp add: sign_result demo_entry_defs getters)

text \<open>
  C6. \<open>ReplaceAuthorizedKeys\<close> fails, with \<open>ErrMissingKey\<close>, exactly when \<open>pubkeys\<close> is
  empty, and then the mutation is unchanged; for a non-empty \<open>pubkeys\<close> it returns no error
  and the mutation differs from the old one in the entry's authorized keys only, which
  are \<open>pubkeys\<close>.
\<close>

theorem ReplaceAuthorizedKeys_MissingKey_iff_empty:
  "(fst (ReplaceAuthorizedKeys m pubkeys) \<noteq> None \<longleftrightarrow> pubkeys = []) \<and>
   (pubkeys = [] \<longrightarrow> ReplaceAuthorizedKeys m pubkeys = (Some ErrMissingKey, m)) \<and>
   (pubkeys \<noteq> [] \<longrightarrow>
      fst (ReplaceAuthorizedKeys m pubkeys) = None \<and>
      AuthorizedKeys (entry (snd (ReplaceAuthorizedKeys m pubkeys))) = pubkeys \<and>
      snd (ReplaceAuthorizedKeys m pubkeys) = m\<lparr>entry := (entry m)\<lparr>AuthorizedKeys := pubkeys\<rparr>\<rparr>)"
  by (cases pubkeys) (simp_all add: ReplaceAuthorizedKeys_def)

theorem ReplaceAuthorizedKeys_MissingKey_iff_empty_witness:
  "ReplaceAuthorizedKeys demo_mutation [] = (Some ErrMissingKey, demo_mutation) \<and>
   fst (ReplaceAuthorizedKeys demo_mutation [[4], [5]]) = None \<and>
   AuthorizedKeys (entry (snd (ReplaceAuthorizedKeys demo_mutation [[4], [5]]))) = [[4], [5]]"
  using ReplaceAuthorizedKeys_MissingKey_iff_empty [where m = demo_mutation and pubkeys = "[]"]
        ReplaceAuthorizedKeys_MissingKey_iff_empty
          [where m = demo_mutation and pubkeys = "[[4], [5]]"]
  by simp

section \<open>The toy instance evaluated\<close>

lemma demo_verify_ok:
  assumes "a < 5" and "demo_commit_ok a c"
  shows "VerifyGetEntryResponse demo_lib demo_verifier dID appID userID demo_store (Some 0)
           (Some (demo_resp a c)) = (Returned None, demo_store)"
proof -
  have "of_nat a <s (5 :: int64)"
  proof -
    from assms(1) have "a = 0 \<or> a = 1 \<or> a = 2 \<or> a = 3 \<or> a = 4" by arith
    then show ?thesis by (auto simp: word_sless_alt)
  qed
  then show ?thesis
    using assms
    by (auto simp: VerifyGetEntryResponse_def demo_lib_def demo_verifier_def demo_store_def
        demo_resp_def demo_FromLeafValue_def demo_commitments_Verify_def demo_VerifyRoot_def
        demo_VerifyInclusionAtIndex_def demo_commit_ok_def getters Let_def
        split: option.splits)
qed

lemma demo_client_fields:
  "cli (demo_client r) = demo_rpc" "domainID (demo_client r) = ''example.com''"
  "kt (demo_client r) = demo_verifier" "RetryCount (demo_client r) = r"
  "RetryDelay (demo_client r) = 3000000000" "trusted (demo_client r) = 0"
  by (simp_all add: demo_client_def)

lemma demo_trustedTreeSize:
  "heap w = demo_store \<Longrightarrow> trustedTreeSize (demo_client r) w = 0"
  by (simp add: trustedTreeSize_def demo_client_fields logRootAt_def demo_store_def)

lemma demo_call_UpdateEntry:
  "call_UpdateEntry (demo_client r) \<lparr>heap = demo_store, server = n, events = ev\<rparr> req =
     (Inr \<lparr>Proof = Some (if n < 2 then demo_resp 0 None
                           else demo_resp 1 (Some \<lparr>Key = [2], Data = [3]\<rparr>))\<rparr>,
      \<lparr>heap = demo_store, server = Suc n, events = ev @ [EvUpdateEntry req]\<rparr>)"
  by (simp add: call_UpdateEntry_def demo_client_fields demo_rpc_def)

lemma demo_call_GetEntry:
  "call_GetEntry (demo_client r) \<lparr>heap = demo_store, server = n, events = ev\<rparr> req =
     (Inr (demo_resp 0 None),
      \<lparr>heap = demo_store, server = Suc n, events = ev @ [EvGetEntry req]\<rparr>)"
  by (simp add: call_GetEntry_def demo_client_fields demo_rpc_def)

lemma demo_sas:
  "Signatures (entry m) = [] \<or> Signatures (entry m) = [(''k1'', [9, 9])] \<Longrightarrow>
   AuthorizedKeys (entry m) = [[9, 9]] \<Longrightarrow> Previous (entry m) = 0 # GetCommitment (prevEntry m) \<Longrightarrow>
   GetAuthorizedKeys (prevEntry m) = [] \<Longrightarrow>
   SerializeAndSign demo_entry_lib m [demo_signer ''k1'' [9, 9]] t =
     (Inr \<lparr>DomainId = DomainID m, UserId = UserID m, AppId = AppID m, FirstTreeSize = t,
           EntryUpdateField =
             \<lparr>upd_Mutation = (entry m)\<lparr>Signatures := [(''k1'', [9, 9])]\<rparr>,
              upd_Committed = \<lparr>Key = nonce m, Data = data m\<rparr>\<rparr>\<rparr>,
      m\<lparr>entry := (entry m)\<lparr>Signatures := [(''k1'', [9, 9])]\<rparr>\<rparr>)"
  by (simp add: SerializeAndSign_def sign_result demo_entry_lib_def demo_verifyKeys_def demo_signer_def)


lemma demo_sas_request:
  assumes "m = demo_mutation \<or> m = demo_signed_mutation"
  shows "SerializeAndSign demo_entry_lib m [demo_signer ''k1'' [9, 9]] 0
           = (Inr demo_request, demo_signed_mutation)"
  using assms
  by (subst demo_sas)
     (auto simp: demo_mutation_def demo_signed_mutation_def demo_request_def getters)

lemma demo_verify_absent:
  "VerifyGetEntryResponse demo_lib demo_verifier ''example.com'' ''app'' ''alice''
     demo_store (Some 0) (Some (demo_resp 0 None)) = (Returned None, demo_store)"
  by (rule demo_verify_ok) (simp_all add: demo_commit_ok_def)

lemma demo_verify_present:
  "VerifyGetEntryResponse demo_lib demo_verifier ''example.com'' ''app'' ''alice''
     demo_store (Some 0) (Some (demo_resp 1 (Some \<lparr>Key = [2], Data = [3]\<rparr>)))
   = (Returned None, demo_store)"
  by (rule demo_verify_ok) (simp_all add: demo_commit_ok_def demo_leaf_def)

lemma demo_request_fields:
  "AppId demo_request = ''app''" "UserId demo_request = ''alice''"
  by (simp_all add: demo_request_def)

lemma demo_Retry_absent:
  assumes "n < 2" and "m = demo_mutation \<or> m = demo_signed_mutation"
  shows "Retry demo_lib demo_entry_lib (demo_client r) m [demo_signer ''k1'' [9, 9]]
           \<lparr>heap = demo_store, server = n, events = ev\<rparr>
         = (Returned (Some ErrRetry), demo_signed_mutation,
            \<lparr>heap = demo_store, server = Suc n, events = ev @ [EvUpdateEntry demo_request]\<rparr>)"
proof -
  have t: "trustedTreeSize (demo_client r) \<lparr>heap = demo_store, server = n, events = ev\<rparr> = 0"
    by (rule demo_trustedTreeSize) simp
  show ?thesis
    unfolding Retry_def t demo_sas_request [OF assms(2)]
    apply (simp add: demo_call_UpdateEntry assms(1) demo_client_fields demo_request_fields
        demo_verify_absent)
    apply (simp add: getters demo_resp_def demo_leaf_def demo_entry_lib_def SetPrevious_def
        demo_lib_def demo_FromLeafValue_def demo_mutation_def demo_signed_mutation_def)
    done
qed

lemma demo_Retry_present:
  assumes "\<not> n < 2"
  shows "Retry demo_lib demo_entry_lib (demo_client r) demo_signed_mutation
           [demo_signer ''k1'' [9, 9]] \<lparr>heap = demo_store, server = n, events = ev\<rparr>
         = (Returned None, demo_applied_mutation,
            \<lparr>heap = demo_store, server = Suc n, events = ev @ [EvUpdateEntry demo_request]\<rparr>)"
proof -
  have t: "trustedTreeSize (demo_client r) \<lparr>heap = demo_store, server = n, events = ev\<rparr> = 0"
    by (rule demo_trustedTreeSize) simp
  show ?thesis
    unfolding Retry_def t demo_sas_request [OF disjI2 [OF refl]]
    apply (simp add: demo_call_UpdateEntry assms demo_client_fields demo_request_fields
        demo_verify_present demo_verify_present [unfolded One_nat_def])
    apply (simp add: getters demo_resp_def demo_leaf_def demo_entry_lib_def SetPrevious_def
        demo_lib_def demo_FromLeafValue_def demo_mutation_def demo_signed_mutation_def
        demo_applied_mutation_def)
    done
qed

lemma demo_kt_NewMutation:
  "kt_NewMutation (demo_client r) dID appID userID profileData authorizedKeys vrfProof leaf
     = Inr demo_mutation"
  by (simp add: demo_client_def)

lemma demo_Update_prologue:
  "call_GetEntry (demo_client r) demo_world
     \<lparr>get_DomainId = domainID (demo_client r), get_UserId = ''alice'', get_AppId = ''app'',
      get_FirstTreeSize = trustedTreeSize (demo_client r) demo_world\<rparr>
   = (Inr (demo_resp 0 None),
      \<lparr>heap = demo_store, server = Suc 0, events = [EvGetEntry demo_GetEntryRequest]\<rparr>)"
  "VerifyGetEntryResponse demo_lib (kt (demo_client r)) (domainID (demo_client r)) ''app''
     ''alice'' (heap \<lparr>heap = demo_store, server = Suc 0,
                        events = [EvGetEntry demo_GetEntryRequest]\<rparr>)
     (Some (trusted (demo_client r))) (Some (demo_resp 0 None)) = (Returned None, demo_store)"
  "kt_NewMutation (demo_client r) (domainID (demo_client r)) ''app'' ''alice'' [3] [[9, 9]]
     (GetVrfProof (Some (demo_resp 0 None)))
     (GetLeafValue (GetLeaf (GetLeafProof (Some (demo_resp 0 None))))) = Inr demo_mutation"
proof -
  show "call_GetEntry (demo_client r) demo_world
     \<lparr>get_DomainId = domainID (demo_client r), get_UserId = ''alice'', get_AppId = ''app'',
      get_FirstTreeSize = trustedTreeSize (demo_client r) demo_world\<rparr>
   = (Inr (demo_resp 0 None),
      \<lparr>heap = demo_store, server = Suc 0, events = [EvGetEntry demo_GetEntryRequest]\<rparr>)"
    unfolding demo_world_def demo_call_GetEntry
    by (simp add: demo_trustedTreeSize demo_client_fields demo_GetEntryRequest_def)
  show "VerifyGetEntryResponse demo_lib (kt (demo_client r)) (domainID (demo_client r)) ''app''
     ''alice'' (heap \<lparr>heap = demo_store, server = Suc 0,
                        events = [EvGetEntry demo_GetEntryRequest]\<rparr>)
     (Some (trusted (demo_client r))) (Some (demo_resp 0 None)) = (Returned None, demo_store)"
    by (simp add: demo_client_fields demo_verify_absent)
  show "kt_NewMutation (demo_client r) (domainID (demo_client r)) ''app'' ''alice'' [3] [[9, 9]]
     (GetVrfProof (Some (demo_resp 0 None)))
     (GetLeafValue (GetLeaf (GetLeafProof (Some (demo_resp 0 None))))) = Inr demo_mutation"
    by (rule demo_kt_NewMutation)
qed

lemma demo_Update_one_retry:
  "Update demo_lib demo_entry_lib (demo_client 1) ''app'' ''alice'' [3]
     [demo_signer ''k1'' [9, 9]] [[9, 9]] demo_world
   = (Returned (Some demo_applied_mutation, None),
      \<lparr>heap = demo_store, server = 3,
       events = [EvGetEntry demo_GetEntryRequest, EvUpdateEntry demo_request,
                 EvSleep 3000000000, EvUpdateEntry demo_request]\<rparr>)"
  unfolding Update_def demo_Update_prologue(1)
  by (simp add: Update_submit_def demo_Retry_absent demo_Retry_present Sleep_def
      demo_client_fields demo_verify_absent demo_kt_NewMutation numeral_3_eq_3)

lemma demo_Update_no_retries:
  "Update demo_lib demo_entry_lib (demo_client 0) ''app'' ''alice'' [3]
     [demo_signer ''k1'' [9, 9]] [[9, 9]] demo_world
   = (Returned (Some demo_signed_mutation, Some ErrRetry),
      \<lparr>heap = demo_store, server = 2,
       events = [EvGetEntry demo_GetEntryRequest, EvUpdateEntry demo_request]\<rparr>)"
  unfolding Update_def demo_Update_prologue(1)
  by (simp add: Update_submit_def demo_Retry_absent demo_client_fields demo_verify_absent
      demo_kt_NewMutation numeral_2_eq_2)
section \<open>Properties of the client\<close>

lemma Update_retries_attempts:
  assumes "0 \<le> i"
    and "Update_attempt L E c signers m0 w0 (nat i) = (Returned err, m, w)"
    and "\<forall>j < nat i. fst (Update_attempt L E c signers m0 w0 j) = Returned (Some ErrRetry)"
  shows "\<exists>k. nat i \<le> k \<and> int k \<le> max i (RetryCount c) \<and>
           Update_retries L E c signers i err m w = Update_attempt L E c signers m0 w0 k \<and>
           (\<forall>j < k. fst (Update_attempt L E c signers m0 w0 j) = Returned (Some ErrRetry)) \<and>
           (int k < RetryCount c \<longrightarrow>
              fst (Update_attempt L E c signers m0 w0 k) \<noteq> Returned (Some ErrRetry))"
  using assms
proof (induction "nat (RetryCount c - i)" arbitrary: i err m w)
  case 0
  then have "\<not> i < RetryCount c" by simp
  then have "Update_retries L E c signers i err m w = (Returned err, m, w)"
    by simp
  with 0 show ?case
    by (intro exI [of _ "nat i"]) auto
next
  case (Suc n)
  show ?case
  proof (cases "err = Some ErrRetry")
    case False
    then have "Update_retries L E c signers i err m w = (Returned err, m, w)"
      by simp
    with Suc.prems False show ?thesis
      by (intro exI [of _ "nat i"]) auto
  next
    case True
    from Suc.hyps(2) have lt: "i < RetryCount c" by simp
    obtain r m' w' where nxt: "Retry L E c m signers (Sleep (RetryDelay c) w) = (r, m', w')"
      by (cases "Retry L E c m signers (Sleep (RetryDelay c) w)") auto
    have suc: "Update_attempt L E c signers m0 w0 (Suc (nat i)) = (r, m', w')"
      using Suc.prems(2) nxt by simp
    have nat_suc: "nat (i + 1) = Suc (nat i)"
      using Suc.prems(1) by simp
    have before: "\<forall>j < Suc (nat i). fst (Update_attempt L E c signers m0 w0 j) = Returned (Some ErrRetry)"
      using Suc.prems(2,3) True by (auto simp: less_Suc_eq)
    show ?thesis
    proof (cases r)
      case Panicked
      then have "Update_retries L E c signers i err m w = (Panicked, m', w')"
        using True lt nxt by simp
      with suc before Panicked lt Suc.prems(1) show ?thesis
        by (intro exI [of _ "Suc (nat i)"]) auto
    next
      case (Returned err')
      have step: "Update_retries L E c signers i err m w
                    = Update_retries L E c signers (i + 1) err' m' w'"
        using True lt nxt Returned by simp
      have "n = nat (RetryCount c - (i + 1))"
        using Suc.hyps(2) by simp
      from Suc.hyps(1) [OF this, of err' m' w'] suc before Returned nat_suc Suc.prems(1)
      obtain k where k: "nat (i + 1) \<le> k" "int k \<le> max (i + 1) (RetryCount c)"
          "Update_retries L E c signers (i + 1) err' m' w' = Update_attempt L E c signers m0 w0 k"
          "\<forall>j < k. fst (Update_attempt L E c signers m0 w0 j) = Returned (Some ErrRetry)"
          "int k < RetryCount c \<longrightarrow>
              fst (Update_attempt L E c signers m0 w0 k) \<noteq> Returned (Some ErrRetry)"
        by auto
      with step lt show ?thesis
        by (intro exI [of _ k]) auto
    qed
  qed
qed

lemma Update_submits:
  assumes "call_GetEntry c w \<lparr>get_DomainId = domainID c, get_UserId = userID,
                               get_AppId = appID, get_FirstTreeSize = trustedTreeSize c w\<rparr>
             = (Inr getResp, w1)"
      and "VerifyGetEntryResponse L (kt c) (domainID c) appID userID (heap w1)
             (Some (trusted c)) (Some getResp) = (Returned None, s2)"
      and "kt_NewMutation c (domainID c) appID userID profileData authorizedKeys
             (GetVrfProof (Some getResp)) (GetLeafValue (GetLeaf (GetLeafProof (Some getResp))))
             = Inr m"
  shows "Update L E c appID userID profileData signers authorizedKeys w =
           (case Update_submit L E c m signers (w1\<lparr>heap := s2\<rparr>) of
             (Panicked, m', w') \<Rightarrow> (Panicked, w')
           | (Returned err, m', w') \<Rightarrow> (Returned (Some m', err), w'))"
  using assms by (simp add: Update_def)

lemma Retry_events:
  "\<exists>lst. events (snd (snd (Retry L E c m signers w))) = events w @ lst \<and>
         (lst = [] \<or> (\<exists>req. lst = [EvUpdateEntry req])) \<and>
         (fst (Retry L E c m signers w) = Returned (Some ErrRetry) \<longrightarrow>
            (\<exists>req. lst = [EvUpdateEntry req]))"
  by (simp add: Retry_def call_UpdateEntry_def Let_def
      split: prod.splits sum.splits option.splits result.splits)

lemma Update_attempt_events:
  assumes "\<forall>j < k. fst (Update_attempt L E c signers m w j) = Returned (Some ErrRetry)"
  shows "\<exists>sends lst. length sends = k \<and>
           (lst = [] \<or> (\<exists>req. lst = [EvUpdateEntry req])) \<and>
           (fst (Update_attempt L E c signers m w k) = Returned (Some ErrRetry) \<longrightarrow>
              (\<exists>req. lst = [EvUpdateEntry req])) \<and>
           events (snd (snd (Update_attempt L E c signers m w k)))
             = events w
               @ concat (map (\<lambda>req. [EvUpdateEntry req, EvSleep (RetryDelay c)]) sends) @ lst"
  using assms
proof (induction k)
  case 0
  from Retry_events [of L E c m signers w] show ?case
    by auto
next
  case (Suc k)
  obtain r m' w' where a: "Update_attempt L E c signers m w k = (r, m', w')"
    by (cases "Update_attempt L E c signers m w k") auto
  from Suc.prems have "fst (Update_attempt L E c signers m w k) = Returned (Some ErrRetry)"
    by simp
  with Suc obtain sends req where sends: "length sends = k"
      "events w' = events w
         @ concat (map (\<lambda>req. [EvUpdateEntry req, EvSleep (RetryDelay c)]) sends)
         @ [EvUpdateEntry req]"
    using a by auto
  from Retry_events [of L E c m' signers "Sleep (RetryDelay c) w'"]
  obtain lst where lst:
      "events (snd (snd (Retry L E c m' signers (Sleep (RetryDelay c) w'))))
         = events (Sleep (RetryDelay c) w') @ lst"
      "lst = [] \<or> (\<exists>req. lst = [EvUpdateEntry req])"
      "fst (Retry L E c m' signers (Sleep (RetryDelay c) w')) = Returned (Some ErrRetry) \<longrightarrow>
         (\<exists>req. lst = [EvUpdateEntry req])"
    by blast
  have "events (snd (snd (Update_attempt L E c signers m w (Suc k))))
          = events w
            @ concat (map (\<lambda>req. [EvUpdateEntry req, EvSleep (RetryDelay c)]) (sends @ [req]))
            @ lst"
    using a lst(1) sends(2) by (simp add: Sleep_def)
  moreover have "length (sends @ [req]) = Suc k"
    using sends(1) by simp
  moreover have "fst (Update_attempt L E c signers m w (Suc k)) = Returned (Some ErrRetry) \<longrightarrow>
                   (\<exists>req. lst = [EvUpdateEntry req])"
    using a lst(3) by simp
  ultimately show ?case
    using lst(2) by blast
qed

lemma Update_submit_attempt_index:
  "\<exists>k. int k \<le> max 0 (RetryCount c) \<and>
       Update_submit L E c m signers w = Update_attempt L E c signers m w k \<and>
       (\<forall>j < k. fst (Update_attempt L E c signers m w j) = Returned (Some ErrRetry)) \<and>
       (int k < RetryCount c \<longrightarrow>
          fst (Update_attempt L E c signers m w k) \<noteq> Returned (Some ErrRetry))"
proof -
  obtain r m' w' where first: "Retry L E c m signers w = (r, m', w')"
    by (cases "Retry L E c m signers w") auto
  show ?thesis
  proof (cases r)
    case Panicked
    with first show ?thesis
      by (intro exI [of _ 0]) (simp add: Update_submit_def)
  next
    case (Returned err)
    have "Update_attempt L E c signers m w (nat 0) = (Returned err, m', w')"
      using first Returned by simp
    from Update_retries_attempts [OF _ this]
    obtain k where "int k \<le> max 0 (RetryCount c)"
        "Update_retries L E c signers 0 err m' w' = Update_attempt L E c signers m w k"
        "\<forall>j < k. fst (Update_attempt L E c signers m w j) = Returned (Some ErrRetry)"
        "int k < RetryCount c \<longrightarrow>
            fst (Update_attempt L E c signers m w k) \<noteq> Returned (Some ErrRetry)"
      by auto
    with first Returned show ?thesis
      by (intro exI [of _ k]) (simp add: Update_submit_def)
  qed
qed

text \<open>
  C7. Once \<open>Update\<close> has fetched and verified the current entry and built the mutation, it
  ends with attempt \<open>k\<close> for some \<open>k\<close> that is at most \<open>RetryCount\<close> (0 when \<open>RetryCount\<close> is
  negative), attempt 0 being the initial submission: every attempt before the last
  returned exactly \<open>ErrRetry\<close>; the last one either did not return \<open>ErrRetry\<close> (success, any
  other error or a panic) or was the last one allowed; and what \<open>Update\<close> returns is what
  attempt \<open>k\<close> returned, with the mutation it left. The events \<open>Update\<close> adds are, in this
  order: the lookup, then for each of the \<open>k\<close> attempts that returned \<open>ErrRetry\<close> its
  submission followed by a sleep of \<open>RetryDelay\<close>, then what the last attempt sent (one
  submission, or nothing when it failed before sending). So each re-attempt comes right
  after a sleep, each sleep right after a submission that returned \<open>ErrRetry\<close>, and
  nothing is sent or slept after an attempt that returned anything else.
\<close>

theorem Update_retries_only_on_ErrRetry:
  assumes "call_GetEntry c w \<lparr>get_DomainId = domainID c, get_UserId = userID,
                               get_AppId = appID, get_FirstTreeSize = trustedTreeSize c w\<rparr>
             = (Inr getResp, w1)"
      and "VerifyGetEntryResponse L (kt c) (domainID c) appID userID (heap w1)
             (Some (trusted c)) (Some getResp) = (Returned None, s2)"
      and "kt_NewMutation c (domainID c) appID userID profileData authorizedKeys
             (GetVrfProof (Some getResp)) (GetLeafValue (GetLeaf (GetLeafProof (Some getResp))))
             = Inr m"
  shows "\<exists>k sends lst.
           int k \<le> max 0 (RetryCount c) \<and>
           (\<forall>j < k. fst (Update_attempt L E c signers m (w1\<lparr>heap := s2\<rparr>) j)
                      = Returned (Some ErrRetry)) \<and>
           (int k < RetryCount c \<longrightarrow>
              fst (Update_attempt L E c signers m (w1\<lparr>heap := s2\<rparr>) k)
                \<noteq> Returned (Some ErrRetry)) \<and>
           Update L E c appID userID profileData signers authorizedKeys w =
             (case Update_attempt L E c signers m (w1\<lparr>heap := s2\<rparr>) k of
               (Panicked, m', w') \<Rightarrow> (Panicked, w')
             | (Returned err, m', w') \<Rightarrow> (Returned (Some m', err), w')) \<and>
           length sends = k \<and>
           (lst = [] \<or> (\<exists>req. lst = [EvUpdateEntry req])) \<and>
           events (snd (Update L E c appID userID profileData signers authorizedKeys w))
             = events w
               @ [EvGetEntry \<lparr>get_DomainId = domainID c, get_UserId = userID,
                               get_AppId = appID, get_FirstTreeSize = trustedTreeSize c w\<rparr>]
               @ concat (map (\<lambda>req. [EvUpdateEntry req, EvSleep (RetryDelay c)]) sends)
               @ lst"
proof -
  let ?w2 = "w1\<lparr>heap := s2\<rparr>"
  from Update_submit_attempt_index [of c L E m signers ?w2]
  obtain k where k: "int k \<le> max 0 (RetryCount c)"
      "Update_submit L E c m signers ?w2 = Update_attempt L E c signers m ?w2 k"
      "\<forall>j < k. fst (Update_attempt L E c signers m ?w2 j) = Returned (Some ErrRetry)"
      "int k < RetryCount c \<longrightarrow>
         fst (Update_attempt L E c signers m ?w2 k) \<noteq> Returned (Some ErrRetry)"
    by blast
  from Update_attempt_events [OF k(3)]
  obtain sends lst where tr: "length sends = k"
      "lst = [] \<or> (\<exists>req. lst = [EvUpdateEntry req])"
      "events (snd (snd (Update_attempt L E c signers m ?w2 k)))
         = events ?w2
           @ concat (map (\<lambda>req. [EvUpdateEntry req, EvSleep (RetryDelay c)]) sends) @ lst"
    by blast
  have upd: "Update L E c appID userID profileData signers authorizedKeys w =
           (case Update_attempt L E c signers m ?w2 k of
             (Panicked, m', w') \<Rightarrow> (Panicked, w')
           | (Returned err, m', w') \<Rightarrow> (Returned (Some m', err), w'))"
    using Update_submits [OF assms, of E signers] k(2) by simp
  have w1: "events ?w2
              = events w @ [EvGetEntry \<lparr>get_DomainId = domainID c, get_UserId = userID,
                               get_AppId = appID, get_FirstTreeSize = trustedTreeSize c w\<rparr>]"
    using assms(1) by (auto simp: call_GetEntry_def split: prod.splits)
  have "snd (Update L E c appID userID profileData signers authorizedKeys w)
          = snd (snd (Update_attempt L E c signers m ?w2 k))"
    unfolding upd by (simp split: prod.splits result.splits)
  with tr(3) w1 have
    "events (snd (Update L E c appID userID profileData signers authorizedKeys w))
       = events w
         @ [EvGetEntry \<lparr>get_DomainId = domainID c, get_UserId = userID,
                         get_AppId = appID, get_FirstTreeSize = trustedTreeSize c w\<rparr>]
         @ concat (map (\<lambda>req. [EvUpdateEntry req, EvSleep (RetryDelay c)]) sends) @ lst"
    by simp
  with k(1,3,4) upd tr(1,2) show ?thesis
    by blast
qed











subsection \<open>The client on the toy server\<close>

theorem Update_retries_only_on_ErrRetry_witness:
  "call_GetEntry (demo_client 1) demo_world
     \<lparr>get_DomainId = domainID (demo_client 1), get_UserId = ''alice'', get_AppId = ''app'',
      get_FirstTreeSize = trustedTreeSize (demo_client 1) demo_world\<rparr>
   = (Inr (demo_resp 0 None),
      \<lparr>heap = demo_store, server = Suc 0, events = [EvGetEntry demo_GetEntryRequest]\<rparr>) \<and>
   VerifyGetEntryResponse demo_lib (kt (demo_client 1)) (domainID (demo_client 1)) ''app''
     ''alice'' (heap \<lparr>heap = demo_store, server = Suc 0,
                        events = [EvGetEntry demo_GetEntryRequest]\<rparr>)
     (Some (trusted (demo_client 1))) (Some (demo_resp 0 None)) = (Returned None, demo_store) \<and>
   kt_NewMutation (demo_client 1) (domainID (demo_client 1)) ''app'' ''alice'' [3] [[9, 9]]
     (GetVrfProof (Some (demo_resp 0 None)))
     (GetLeafValue (GetLeaf (GetLeafProof (Some (demo_resp 0 None))))) = Inr demo_mutation \<and>
   (\<exists>k sends lst.
      int k \<le> 1 \<and> length sends = k \<and>
      Update demo_lib demo_entry_lib (demo_client 1) ''app'' ''alice'' [3]
        [demo_signer ''k1'' [9, 9]] [[9, 9]] demo_world
      = (case Update_attempt demo_lib demo_entry_lib (demo_client 1) [demo_signer ''k1'' [9, 9]]
                demo_mutation
                \<lparr>heap = demo_store, server = Suc 0,
                   events = [EvGetEntry demo_GetEntryRequest]\<rparr> k of
          (Panicked, m', w') \<Rightarrow> (Panicked, w')
        | (Returned err, m', w') \<Rightarrow> (Returned (Some m', err), w')) \<and>
      events (snd (Update demo_lib demo_entry_lib (demo_client 1) ''app'' ''alice'' [3]
                     [demo_signer ''k1'' [9, 9]] [[9, 9]] demo_world))
      = EvGetEntry demo_GetEntryRequest
        # concat (map (\<lambda>req. [EvUpdateEntry req, EvSleep 3000000000]) sends) @ lst) \<and>
   Update demo_lib demo_entry_lib (demo_client 1) ''app'' ''alice'' [3]
     [demo_signer ''k1'' [9, 9]] [[9, 9]] demo_world
   = (Returned (Some demo_applied_mutation, None),
      \<lparr>heap = demo_store, server = 3,
       events = [EvGetEntry demo_GetEntryRequest, EvUpdateEntry demo_request,
                 EvSleep 3000000000, EvUpdateEntry demo_request]\<rparr>) \<and>
   Update demo_lib demo_entry_lib (demo_client 0) ''app'' ''alice'' [3]
     [demo_signer ''k1'' [9, 9]] [[9, 9]] demo_world
   = (Returned (Some demo_signed_mutation, Some ErrRetry),
      \<lparr>heap = demo_store, server = 2,
       events = [EvGetEntry demo_GetEntryRequest, EvUpdateEntry demo_request]\<rparr>)"
proof -
  have req: "\<lparr>get_DomainId = domainID (demo_client 1), get_UserId = ''alice'',
              get_AppId = ''app'', get_FirstTreeSize = trustedTreeSize (demo_client 1) demo_world\<rparr>
             = demo_GetEntryRequest"
    by (simp add: demo_GetEntryRequest_def demo_client_fields demo_trustedTreeSize demo_world_def)
  from Update_retries_only_on_ErrRetry
         [where E = demo_entry_lib and signers = "[demo_signer ''k1'' [9, 9]]",
          OF demo_Update_prologue [of 1]]
  obtain k sends lst where
      "int k \<le> max 0 (RetryCount (demo_client 1))" "length sends = k"
      "Update demo_lib demo_entry_lib (demo_client 1) ''app'' ''alice'' [3]
        [demo_signer ''k1'' [9, 9]] [[9, 9]] demo_world
      = (case Update_attempt demo_lib demo_entry_lib (demo_client 1) [demo_signer ''k1'' [9, 9]]
                demo_mutation
                (\<lparr>heap = demo_store, server = Suc 0,
                   events = [EvGetEntry demo_GetEntryRequest]\<rparr>\<lparr>heap := demo_store\<rparr>) k of
          (Panicked, m', w') \<Rightarrow> (Panicked, w')
        | (Returned err, m', w') \<Rightarrow> (Returned (Some m', err), w'))"
      "events (snd (Update demo_lib demo_entry_lib (demo_client 1) ''app'' ''alice'' [3]
                     [demo_signer ''k1'' [9, 9]] [[9, 9]] demo_world))
      = events demo_world
        @ [EvGetEntry \<lparr>get_DomainId = domainID (demo_client 1), get_UserId = ''alice'',
              get_AppId = ''app'', get_FirstTreeSize = trustedTreeSize (demo_client 1) demo_world\<rparr>]
        @ concat (map (\<lambda>req. [EvUpdateEntry req, EvSleep (RetryDelay (demo_client 1))]) sends)
        @ lst"
    by blast
  then have "\<exists>k sends lst.
      int k \<le> 1 \<and> length sends = k \<and>
      Update demo_lib demo_entry_lib (demo_client 1) ''app'' ''alice'' [3]
        [demo_signer ''k1'' [9, 9]] [[9, 9]] demo_world
      = (case Update_attempt demo_lib demo_entry_lib (demo_client 1) [demo_signer ''k1'' [9, 9]]
                demo_mutation
                \<lparr>heap = demo_store, server = Suc 0,
                   events = [EvGetEntry demo_GetEntryRequest]\<rparr> k of
          (Panicked, m', w') \<Rightarrow> (Panicked, w')
        | (Returned err, m', w') \<Rightarrow> (Returned (Some m', err), w')) \<and>
      events (snd (Update demo_lib demo_entry_lib (demo_client 1) ''app'' ''alice'' [3]
                     [demo_signer ''k1'' [9, 9]] [[9, 9]] demo_world))
      = EvGetEntry demo_GetEntryRequest
        # concat (map (\<lambda>req. [EvUpdateEntry req, EvSleep 3000000000]) sends) @ lst"
    unfolding req
    by (intro exI [of _ k] exI [of _ sends] exI [of _ lst])
       (simp add: demo_client_fields demo_world_def)
  then show ?thesis
    using demo_Update_prologue [of 1] demo_Update_one_retry demo_Update_no_retries
    by simp
qed











section \<open>Properties of the monitor\<close>

lemmas demo_monitor_defs =
  demo_monitor_lib_def demo_epoch_def demo_monitor_state_def GetEpochSmr_def
  VerifyEpochMutations_def GetRootHash_def GetMapId_def GetMapRevision_def

text \<open>
  C9, as stated, does not hold. The claim: for each pair it processes the loop stores
  exactly one result, holding the countersigned map root when \<open>VerifyEpochMutations\<close>
  succeeds, and it goes on with later pairs rather than aborting. Counterexample: three
  epochs that all verify and a signer that is out of service. For the first pair
  \<open>VerifyEpochMutations\<close> succeeds, yet \<open>ProcessLoop\<close> stores nothing, returns the signer's
  error and never processes the second pair. The same happens, before verification, when
  the mutations of epoch \<open>B\<close> cannot be fetched.
\<close>

theorem ProcessLoop_stores_nothing_counterexample:
  "EpochPairs [demo_epoch 1 [1], demo_epoch 2 [2], demo_epoch 3 [3]]
     = [\<lparr>A = demo_epoch 1 [1], B = demo_epoch 2 [2]\<rparr>,
        \<lparr>A = demo_epoch 2 [2], B = demo_epoch 3 [3]\<rparr>] \<and>
   VerifyEpochMutations demo_monitor_lib_no_signer () (demo_epoch 1 [1]) (demo_epoch 2 [2]) []
     = ([], ()) \<and>
   ProcessLoop demo_monitor_lib_no_signer
     [\<lparr>A = demo_epoch 1 [1], B = demo_epoch 2 [2]\<rparr>,
      \<lparr>A = demo_epoch 2 [2], B = demo_epoch 3 [3]\<rparr>] None None demo_monitor_state
     = (Some (ErrOther ''signer unavailable''), \<lparr>ext = 100, mon = (), set_calls = []\<rparr>) \<and>
   ProcessLoop demo_monitor_lib_no_fetch
     [\<lparr>A = demo_epoch 1 [1], B = demo_epoch 2 [2]\<rparr>,
      \<lparr>A = demo_epoch 2 [2], B = demo_epoch 3 [3]\<rparr>] None None demo_monitor_state
     = (Some (ErrOther ''fetch failed''), \<lparr>ext = 100, mon = (), set_calls = []\<rparr>)"
  by (simp add: ProcessLoop_def ProcessLoop_pair_def save_result_def EpochPairs_def Let_def
      demo_monitor_lib_no_signer_def demo_monitor_lib_no_fetch_def demo_monitor_defs)

text \<open>
  C9, what holds instead. \<open>ProcessLoop\<close> on the pairs \<open>pair # rest\<close>, with \<open>B\<close> the second
  epoch of \<open>pair\<close>:
  \<^item> if the mutations of \<open>B\<close> cannot be fetched, it stores nothing and returns that error;
  \<^item> if they are fetched and \<open>VerifyEpochMutations\<close> succeeds but countersigning fails, it
    stores nothing and returns the signer's error;
  \<^item> otherwise it makes exactly one call of \<^verbatim>\<open>store.Set\<close>, at revision
    \<open>B.smr.map_revision\<close>, with the countersigned map root and no errors when verification
    succeeded, and with a nil map root and the verification errors when it failed; then
    it goes on with \<open>rest\<close>, unless \<^verbatim>\<open>store.Set\<close> itself failed, whose error it returns.

  In the first two cases the pairs of \<open>rest\<close> are not processed. Once no pair is left, it
  returns the first of the two errors of the epoch stream and the pairing, if there is one.
\<close>

theorem ProcessLoop_one_result_unless_fetch_or_sign_fails:
  "(\<forall>err e1.
      EpochMutations M (ext st) (B pair) = (Inl err, e1) \<longrightarrow>
      ProcessLoop M (pair # rest) errA errB st = (Some err, st\<lparr>ext := e1\<rparr>)) \<and>
   (\<forall>mutations e1 ms1 err.
      EpochMutations M (ext st) (B pair) = (Inr mutations, e1) \<longrightarrow>
      VerifyEpochMutations M (mon st) (A pair) (B pair) mutations = ([], ms1) \<longrightarrow>
      signMapRoot M ms1 (GetEpochSmr (B pair)) = Inl err \<longrightarrow>
      ProcessLoop M (pair # rest) errA errB st = (Some err, st\<lparr>ext := e1, mon := ms1\<rparr>)) \<and>
   (\<forall>mutations e1 errs ms1 smr t e2 r err e3 st'.
      EpochMutations M (ext st) (B pair) = (Inr mutations, e1) \<longrightarrow>
      VerifyEpochMutations M (mon st) (A pair) (B pair) mutations = (errs, ms1) \<longrightarrow>
      (errs = [] \<longrightarrow> signMapRoot M ms1 (GetEpochSmr (B pair)) = Inr smr) \<longrightarrow>
      time_Now M e1 = (t, e2) \<longrightarrow>
      r = \<lparr>Result_Smr = (if errs = [] then smr else None), Seen = t, Errors = errs\<rparr> \<longrightarrow>
      store_Set M e2 (GetMapRevision (GetEpochSmr (B pair))) r = (err, e3) \<longrightarrow>
      st' = st\<lparr>ext := e3, mon := ms1,
               set_calls := set_calls st @ [(GetMapRevision (GetEpochSmr (B pair)), r)]\<rparr> \<longrightarrow>
      ProcessLoop M (pair # rest) errA errB st =
        (case err of
          None \<Rightarrow> ProcessLoop M rest errA errB st'
        | Some e \<Rightarrow> (Some (Errorf ''monitorstorage.Set'' e), st'))) \<and>
   ProcessLoop M [] errA errB st = (if errA \<noteq> None then errA else errB, st)"
proof (intro conjI allI impI)
  fix err e1
  assume "EpochMutations M (ext st) (B pair) = (Inl err, e1)"
  then show "ProcessLoop M (pair # rest) errA errB st = (Some err, st\<lparr>ext := e1\<rparr>)"
    by (simp add: ProcessLoop_def ProcessLoop_pair_def Let_def)
next
  fix mutations e1 ms1 err
  assume "EpochMutations M (ext st) (B pair) = (Inr mutations, e1)"
    and "VerifyEpochMutations M (mon st) (A pair) (B pair) mutations = ([], ms1)"
    and "signMapRoot M ms1 (GetEpochSmr (B pair)) = Inl err"
  then show "ProcessLoop M (pair # rest) errA errB st = (Some err, st\<lparr>ext := e1, mon := ms1\<rparr>)"
    by (simp add: ProcessLoop_def ProcessLoop_pair_def Let_def)
next
  fix mutations e1 errs ms1 smr t e2 r err e3 st'
  assume a: "EpochMutations M (ext st) (B pair) = (Inr mutations, e1)"
    "VerifyEpochMutations M (mon st) (A pair) (B pair) mutations = (errs, ms1)"
    "errs = [] \<longrightarrow> signMapRoot M ms1 (GetEpochSmr (B pair)) = Inr smr"
    "time_Now M e1 = (t, e2)"
    "r = \<lparr>Result_Smr = (if errs = [] then smr else None), Seen = t, Errors = errs\<rparr>"
    "store_Set M e2 (GetMapRevision (GetEpochSmr (B pair))) r = (err, e3)"
    "st' = st\<lparr>ext := e3, mon := ms1,
              set_calls := set_calls st @ [(GetMapRevision (GetEpochSmr (B pair)), r)]\<rparr>"
  have "ProcessLoop_pair M pair st
          = (map_option (Errorf ''monitorstorage.Set'') err, st')"
    using a
    by (cases st; cases "errs = []")
       (simp_all add: ProcessLoop_pair_def save_result_def Let_def)
  then show "ProcessLoop M (pair # rest) errA errB st =
        (case err of
          None \<Rightarrow> ProcessLoop M rest errA errB st'
        | Some e \<Rightarrow> (Some (Errorf ''monitorstorage.Set'' e), st'))"
    by (simp add: ProcessLoop_def split: option.splits)
next
  show "ProcessLoop M [] errA errB st = (if errA \<noteq> None then errA else errB, st)"
    by (simp add: ProcessLoop_def)
qed

theorem ProcessLoop_one_result_unless_fetch_or_sign_fails_witness:
  "EpochPairs [demo_epoch 1 [1], demo_epoch 2 [], demo_epoch 3 [3]]
     = [\<lparr>A = demo_epoch 1 [1], B = demo_epoch 2 []\<rparr>, \<lparr>A = demo_epoch 2 [], B = demo_epoch 3 [3]\<rparr>] \<and>
   ProcessLoop demo_monitor_lib
     [\<lparr>A = demo_epoch 1 [1], B = demo_epoch 2 []\<rparr>, \<lparr>A = demo_epoch 2 [], B = demo_epoch 3 [3]\<rparr>]
     None None demo_monitor_state
   = (None,
      \<lparr>ext = 102, mon = (),
       set_calls =
         [(2, \<lparr>Result_Smr = None, Seen = 100, Errors = [ErrOther ''invalid epoch'']\<rparr>),
          (3, \<lparr>Result_Smr = Some \<lparr>TimestampNanos = 0, RootHash = [3], MapId = 4,
                                   MapRevision = 3, Signature = Some [42]\<rparr>,
               Seen = 101, Errors = []\<rparr>)]\<rparr>) \<and>
   ProcessLoop demo_monitor_lib_no_signer
     [\<lparr>A = demo_epoch 2 [], B = demo_epoch 3 [3]\<rparr>, \<lparr>A = demo_epoch 3 [3], B = demo_epoch 4 [4]\<rparr>]
     None None demo_monitor_state
   = (Some (ErrOther ''signer unavailable''), \<lparr>ext = 100, mon = (), set_calls = []\<rparr>) \<and>
   ProcessLoop demo_monitor_lib_no_fetch
     [\<lparr>A = demo_epoch 2 [], B = demo_epoch 3 [3]\<rparr>, \<lparr>A = demo_epoch 3 [3], B = demo_epoch 4 [4]\<rparr>]
     None None demo_monitor_state
   = (Some (ErrOther ''fetch failed''), \<lparr>ext = 100, mon = (), set_calls = []\<rparr>)"
proof -
  let ?p1 = "\<lparr>A = demo_epoch 1 [1], B = demo_epoch 2 []\<rparr>"
  let ?p2 = "\<lparr>A = demo_epoch 2 [], B = demo_epoch 3 [3]\<rparr>"
  let ?p3 = "\<lparr>A = demo_epoch 3 [3], B = demo_epoch 4 [4]\<rparr>"
  let ?r1 = "\<lparr>Result_Smr = None, Seen = 100, Errors = [ErrOther ''invalid epoch'']\<rparr>"
  let ?r2 = "\<lparr>Result_Smr = Some \<lparr>TimestampNanos = 0, RootHash = [3], MapId = 4,
                                   MapRevision = 3, Signature = Some [42]\<rparr>,
               Seen = 101, Errors = []\<rparr>"
  let ?st1 = "demo_monitor_state\<lparr>ext := 101, mon := (),
                set_calls := set_calls demo_monitor_state
                               @ [(GetMapRevision (GetEpochSmr (B ?p1)), ?r1)]\<rparr>"
  let ?st2 = "?st1\<lparr>ext := 102, mon := (),
                set_calls := set_calls ?st1 @ [(GetMapRevision (GetEpochSmr (B ?p2)), ?r2)]\<rparr>"
  have pairs: "EpochPairs [demo_epoch 1 [1], demo_epoch 2 [], demo_epoch 3 [3]] = [?p1, ?p2]"
    by (simp add: EpochPairs_def demo_epoch_def)
  have step1: "ProcessLoop demo_monitor_lib (?p1 # [?p2]) None None demo_monitor_state
                 = ProcessLoop demo_monitor_lib [?p2] None None ?st1"
    using ProcessLoop_one_result_unless_fetch_or_sign_fails
            [where M = demo_monitor_lib and pair = ?p1 and rest = "[?p2]"
               and st = demo_monitor_state and errA = None and errB = None,
             THEN conjunct2, THEN conjunct2, THEN conjunct1, rule_format,
             where mutations = "[]"
               and errs = "[ErrOther ''invalid epoch'']" and t = 100 and smr = None
               and ?e1.0 = 100 and ?e2.0 = 101 and ?e3.0 = 101 and err = None
               and r = ?r1 and st' = ?st1]
    by (simp add: demo_monitor_defs)
  have step2: "ProcessLoop demo_monitor_lib (?p2 # []) None None ?st1
                 = ProcessLoop demo_monitor_lib [] None None ?st2"
    using ProcessLoop_one_result_unless_fetch_or_sign_fails
            [where M = demo_monitor_lib and pair = ?p2 and rest = "[]" and st = ?st1
               and errA = None and errB = None,
             THEN conjunct2, THEN conjunct2, THEN conjunct1, rule_format,
             where mutations = "[]" and errs = "[]" and t = 101 and ?e1.0 = 101
               and ?e2.0 = 102 and ?e3.0 = 102 and err = None and r = ?r2
               and smr = "Some \<lparr>TimestampNanos = 0, RootHash = [3], MapId = 4,
                                 MapRevision = 3, Signature = Some [42]\<rparr>"
               and st' = ?st2]
    by (simp add: demo_monitor_defs)
  have step3: "ProcessLoop demo_monitor_lib [] None None ?st2 = (None, ?st2)"
    using ProcessLoop_one_result_unless_fetch_or_sign_fails
            [where M = demo_monitor_lib and st = ?st2 and errA = None and errB = None,
             THEN conjunct2, THEN conjunct2, THEN conjunct2]
    by simp
  have sign: "ProcessLoop demo_monitor_lib_no_signer (?p2 # [?p3]) None None demo_monitor_state
                = (Some (ErrOther ''signer unavailable''),
                   demo_monitor_state\<lparr>ext := 100, mon := ()\<rparr>)"
    using ProcessLoop_one_result_unless_fetch_or_sign_fails
            [where M = demo_monitor_lib_no_signer and pair = ?p2 and rest = "[?p3]"
               and st = demo_monitor_state and errA = None and errB = None,
             THEN conjunct2, THEN conjunct1, rule_format,
             where mutations = "[]" and ?e1.0 = 100 and err = "ErrOther ''signer unavailable''"]
    by (simp add: demo_monitor_lib_no_signer_def demo_monitor_defs)
  have fetch: "ProcessLoop demo_monitor_lib_no_fetch (?p2 # [?p3]) None None demo_monitor_state
                = (Some (ErrOther ''fetch failed''), demo_monitor_state\<lparr>ext := 100\<rparr>)"
    using ProcessLoop_one_result_unless_fetch_or_sign_fails
            [where M = demo_monitor_lib_no_fetch and pair = ?p2 and rest = "[?p3]"
               and st = demo_monitor_state and errA = None and errB = None,
             THEN conjunct1, rule_format,
             where ?e1.0 = 100 and err = "ErrOther ''fetch failed''"]
    by (simp add: demo_monitor_lib_no_fetch_def demo_monitor_defs)
  show ?thesis
    unfolding pairs step1 step2 step3 sign fetch
    by (simp add: demo_monitor_defs)
qed
end
